theory Spec2Isabelle
  imports Complex_Main
begin

section \<open>JavaScript values used by the agent\<close>

text \<open>
  Times are milliseconds since the epoch (\<open>Date.getTime()\<close>). A JavaScript number that
  may be \<open>NaN\<close> is a \<open>number\<close>; identifiers delivered by the practice-management API are
  typed \<open>number\<close> in the source and are integers here. Optional strings are
  \<open>string option\<close>, with \<open>None\<close> for \<open>null\<close> and \<open>undefined\<close>.
\<close>

type_synonym time = int

datatype number = Num int | NaN

definition truthy_str :: "string option \<Rightarrow> bool" where
  "truthy_str v = (case v of None \<Rightarrow> False | Some s \<Rightarrow> s \<noteq> [])"

definition truthy_id :: "int option \<Rightarrow> bool" where
  "truthy_id v = (case v of None \<Rightarrow> False | Some n \<Rightarrow> n \<noteq> 0)"

text \<open>Template-literal interpolation of an optional string.\<close>

definition interpolate :: "string option \<Rightarrow> string" where
  "interpolate v = (case v of None \<Rightarrow> ''undefined'' | Some s \<Rightarrow> s)"

text \<open>\<open>String.prototype.toLowerCase\<close> on the ASCII letters.\<close>

definition lower_char :: "char \<Rightarrow> char" where
  "lower_char c =
     (case map_of (zip ''ABCDEFGHIJKLMNOPQRSTUVWXYZ'' ''abcdefghijklmnopqrstuvwxyz'') c of
        Some l \<Rightarrow> l | None \<Rightarrow> c)"

definition toLowerCase :: "string \<Rightarrow> string" where
  "toLowerCase s = map lower_char s"

text \<open>The practice's display fields, as the tools and the prompt read them.\<close>

record GeneralInfo =
  practiceName :: string
  phone :: string
  software :: string
  noShowFee :: int
  address :: string
  hours :: string
  services :: string
  rawHours :: "(string \<times> string) list option"

text \<open>
  The built-ins whose results depend on the JavaScript engine's parsing and locale are
  parameters. For a date string \<open>s\<close>: \<open>Date_getTime s\<close> is \<open>new Date(s).getTime()\<close> and
  \<open>Date_getDay s\<close> is \<open>new Date(s).getDay()\<close> (both \<open>None\<close> for an invalid date),
  \<open>toLocaleDateString s\<close> and \<open>toLocaleTimeString s\<close> are the two \<open>en-US\<close> renderings of
  \<open>new Date(s)\<close> that the booking confirmation uses. \<open>parseInt s\<close> is \<open>parseInt(s)\<close>,
  \<open>JSON_stringify\<close> renders the practice's fields.
\<close>

record platform =
  Date_getTime :: "string \<Rightarrow> time option"
  Date_getDay :: "string \<Rightarrow> nat option"
  toLocaleDateString :: "string \<Rightarrow> string"
  toLocaleTimeString :: "string \<Rightarrow> string"
  parseInt :: "string \<Rightarrow> number"
  JSON_stringify :: "GeneralInfo \<Rightarrow> string"

section \<open>The practice-management server and the network\<close>

text \<open>
  A query parameter is interpolated raw, passed through \<open>encodeURIComponent\<close>, or is a
  number. An endpoint string of the source is kept as its path and the list of its
  query parameters in order.
\<close>

datatype qval = QRaw string | QEnc string | QNum number

datatype auth_header = ApiKey string | Bearer "string option"

datatype gender = male | female | other

datatype body =
    PatientBody string number string string string string string gender
  | AppointmentBody string number int "int option" string "string option"

record http_call =
  host :: string
  http_method :: string
  path :: string
  params :: "(string \<times> qval) list"
  Authorization :: auth_header
  body :: "body option"

text \<open>
  What a \<open>fetch\<close> gives: the promise rejects, the response is not \<open>ok\<close> (status and
  text), \<open>response.json()\<close> rejects, or the parsed body, of the type the calling
  operation declares for it.
\<close>

datatype 'a reply = NoReply | NotOk nat string | NotJson | OkJson 'a

record Patient =
  patient_id :: int
  first_name :: string
  last_name :: string
  email :: "string option"

record Provider =
  provider_id :: int
  provider_first_name :: string
  provider_last_name :: string

record AppointmentSlot =
  slot_time :: string
  slot_provider_id :: int
  operatory_id :: "int option"

record Appointment =
  appointment_id :: int
  appointment_patient_id :: int
  appointment_provider_id :: int
  start_time :: string

text \<open>
  The \<open>data\<close> field of a list response: a bare array, an object with the optional inner
  field, or \<open>null\<close>/\<open>undefined\<close>.
\<close>

datatype 'a listing = Bare "'a list" | Wrapped "'a list option" | Nullish

text \<open>
  The body of \<open>/authenticates\<close>: the fields \<open>data.token\<close> and \<open>token\<close>.
\<close>

record token_json =
  data_token :: "string option"
  top_token :: "string option"

text \<open>
  The server is a state machine \<open>'s\<close> with one handler per endpoint: a handler sees the
  call and answers after some milliseconds.
\<close>

type_synonym ('s, 'a) handler = "http_call \<Rightarrow> 's \<Rightarrow> nat \<times> 'a reply \<times> 's"

record 's server =
  post_authenticates :: "('s, token_json) handler"
  get_providers :: "('s, Provider list) handler"
  get_patients :: "('s, Patient listing) handler"
  post_patients :: "('s, Patient) handler"
  get_appointment_slots :: "('s, AppointmentSlot listing) handler"
  post_appointments :: "('s, Appointment) handler"

record 's world =
  clock :: time
  remote :: 's
  sent :: "http_call list"

definition fetch :: "('s, 'a) handler \<Rightarrow> http_call \<Rightarrow> 's world \<Rightarrow> 'a reply \<times> 's world" where
  "fetch h call w =
     (case h call (remote w) of
        (d, r, s') \<Rightarrow> (r, w\<lparr>clock := clock w + int d, remote := s', sent := sent w @ [call]\<rparr>))"

definition idle :: "nat \<Rightarrow> 's world \<Rightarrow> 's world" where
  "idle d w = w\<lparr>clock := clock w + int d\<rparr>"

section \<open>The REST client (src/lib/nexhealth.ts)\<close>

datatype client_error =
    AuthenticationFailed nat string
  | ApiError nat string
  | FetchRejected
  | JsonRejected

record NexHealthClient =
  apiKey :: string
  subdomain :: string
  baseUrl :: string
  bearerToken :: "string option"
  tokenExpiry :: "time option"

definition new_NexHealthClient :: "string \<Rightarrow> string \<Rightarrow> string option \<Rightarrow> NexHealthClient" where
  "new_NexHealthClient key sub base =
     \<lparr>apiKey = key, subdomain = sub,
      baseUrl = (if truthy_str base then the base else ''https://nexhealth.info''),
      bearerToken = None, tokenExpiry = None\<rparr>"

definition has_valid_token :: "NexHealthClient \<Rightarrow> time \<Rightarrow> bool" where
  "has_valid_token c now =
     (truthy_str (bearerToken c) \<and>
      (case tokenExpiry c of None \<Rightarrow> False | Some e \<Rightarrow> now < e))"

definition auth_call :: "NexHealthClient \<Rightarrow> http_call" where
  "auth_call c =
     \<lparr>host = baseUrl c, http_method = ''POST'', path = ''/authenticates'', params = [],
      Authorization = ApiKey (apiKey c), body = None\<rparr>"

definition authenticate ::
  "'s server \<Rightarrow> NexHealthClient \<Rightarrow> 's world \<Rightarrow>
     (client_error + string option) \<times> NexHealthClient \<times> 's world" where
  "authenticate srv c w =
     (if has_valid_token c (clock w) then (Inr (bearerToken c), c, w)
      else
        (case fetch (post_authenticates srv) (auth_call c) w of
           (NoReply, w') \<Rightarrow> (Inl FetchRejected, c, w')
         | (NotOk status errorText, w') \<Rightarrow> (Inl (AuthenticationFailed status errorText), c, w')
         | (NotJson, w') \<Rightarrow> (Inl JsonRejected, c, w')
         | (OkJson d, w') \<Rightarrow>
             (let tok = (if truthy_str (data_token d) then data_token d else top_token d)
              in (Inr tok,
                  c\<lparr>bearerToken := tok, tokenExpiry := Some (clock w' + 55 * 60 * 1000)\<rparr>,
                  w'))))"

definition api_call ::
  "NexHealthClient \<Rightarrow> string \<Rightarrow> string \<Rightarrow> (string \<times> qval) list \<Rightarrow> body option \<Rightarrow>
     string option \<Rightarrow> http_call" where
  "api_call c m p q b token =
     \<lparr>host = baseUrl c, http_method = m, path = p, params = q,
      Authorization = Bearer token, body = b\<rparr>"

definition request ::
  "'s server \<Rightarrow> ('s, 'a) handler \<Rightarrow> string \<Rightarrow> string \<Rightarrow> (string \<times> qval) list \<Rightarrow>
     body option \<Rightarrow> NexHealthClient \<Rightarrow> 's world \<Rightarrow>
     (client_error + 'a) \<times> NexHealthClient \<times> 's world" where
  "request srv h m p q b c w =
     (case authenticate srv c w of
        (Inl e, c', w') \<Rightarrow> (Inl e, c', w')
      | (Inr token, c', w') \<Rightarrow>
          (case fetch h (api_call c' m p q b token) w' of
             (NoReply, w'') \<Rightarrow> (Inl FetchRejected, c', w'')
           | (NotOk status err, w'') \<Rightarrow> (Inl (ApiError status err), c', w'')
           | (NotJson, w'') \<Rightarrow> (Inl JsonRejected, c', w'')
           | (OkJson d, w'') \<Rightarrow> (Inr d, c', w'')))"

definition getProviders ::
  "'s server \<Rightarrow> number \<Rightarrow> NexHealthClient \<Rightarrow> 's world \<Rightarrow>
     (client_error + Provider list) \<times> NexHealthClient \<times> 's world" where
  "getProviders srv locationId c w =
     request srv (get_providers srv) ''GET'' ''/providers''
       [(''subdomain'', QRaw (subdomain c)), (''location_id'', QNum locationId)] None c w"

record search_params =
  search_name :: "string option"
  search_email :: "string option"
  search_phone :: "string option"
  search_locationId :: number

definition search_query :: "NexHealthClient \<Rightarrow> search_params \<Rightarrow> (string \<times> qval) list" where
  "search_query c ps =
     [(''subdomain'', QRaw (subdomain c)), (''location_id'', QNum (search_locationId ps))]
     @ (if truthy_str (search_name ps) then [(''name'', QEnc (the (search_name ps)))] else [])
     @ (if truthy_str (search_email ps) then [(''email'', QEnc (the (search_email ps)))] else [])
     @ (if truthy_str (search_phone ps) then [(''phone'', QEnc (the (search_phone ps)))] else [])"

text \<open>
  The tail of both list operations: \<open>Array.isArray(data) ? data : (data?.field || [])\<close>.
  An array is truthy even when empty.
\<close>

definition unwrap_listing :: "'a listing \<Rightarrow> 'a list" where
  "unwrap_listing d =
     (case d of Bare xs \<Rightarrow> xs | Wrapped (Some xs) \<Rightarrow> xs | Wrapped None \<Rightarrow> [] | Nullish \<Rightarrow> [])"

definition searchPatients ::
  "'s server \<Rightarrow> search_params \<Rightarrow> NexHealthClient \<Rightarrow> 's world \<Rightarrow>
     (client_error + Patient list) \<times> NexHealthClient \<times> 's world" where
  "searchPatients srv ps c w =
     (case request srv (get_patients srv) ''GET'' ''/patients'' (search_query c ps) None c w of
        (Inl e, c', w') \<Rightarrow> (Inl e, c', w')
      | (Inr d, c', w') \<Rightarrow> (Inr (unwrap_listing d), c', w'))"

record new_patient =
  np_firstName :: string
  np_lastName :: string
  np_email :: string
  np_phone :: string
  np_dateOfBirth :: string
  np_gender :: gender
  np_locationId :: number

definition createPatient ::
  "'s server \<Rightarrow> new_patient \<Rightarrow> NexHealthClient \<Rightarrow> 's world \<Rightarrow>
     (client_error + Patient) \<times> NexHealthClient \<times> 's world" where
  "createPatient srv p c w =
     request srv (post_patients srv) ''POST'' ''/patients'' []
       (Some (PatientBody (subdomain c) (np_locationId p) (np_firstName p) (np_lastName p)
                (np_email p) (np_phone p) (np_dateOfBirth p) (np_gender p))) c w"

record slot_params =
  sp_locationId :: number
  sp_providerId :: "int option"
  sp_appointmentTypeId :: "int option"
  sp_startDate :: string
  sp_endDate :: string

text \<open>
  The day count is computed in IEEE doubles. A time value of a \<open>Date\<close> is an integer of
  magnitude at most 8.64e15, hence a double; a difference of two of them is below
  2^54 in magnitude, where the doubles are the integers up to 2^53 and the even
  integers beyond. \<open>round_half_even n d\<close> is \<open>n / d\<close> rounded to the nearest integer, the
  even one on a tie; \<open>double_sub a b\<close> is the double \<open>a - b\<close>.
\<close>

definition round_half_even :: "int \<Rightarrow> int \<Rightarrow> int" where
  "round_half_even n d =
     (let q = n div d; r = n mod d
      in if 2 * r < d then q else if d < 2 * r then q + 1 else if even q then q else q + 1)"

definition double_sub :: "int \<Rightarrow> int \<Rightarrow> int" where
  "double_sub a b =
     (let x = a - b
      in if \<bar>x\<bar> \<le> 2 ^ 53 then x else sgn x * (2 * round_half_even \<bar>x\<bar> 2))"

text \<open>
  The double quotient \<open>x / d\<close> of an integer \<open>x\<close> by a positive integer \<open>d\<close>, for
  \<open>\<bar>x\<bar> / d\<close> below 2^53, is the 53-bit significand \<open>m\<close> divided by \<open>2 ^ sh\<close>:
  \<open>normalise\<close> finds the \<open>sh\<close> that brings \<open>\<bar>x\<bar> * 2 ^ sh / d\<close> to 2^52 or above, and
  \<open>m\<close> is that quotient rounded to the nearest integer, ties to even.
  \<open>ceil_double_div x d\<close> is \<open>Math.ceil\<close> of the double quotient.
\<close>

function normalise :: "int \<Rightarrow> int \<Rightarrow> nat" where
  "normalise n d = (if n \<le> 0 \<or> d \<le> 0 \<or> 2 ^ 52 * d \<le> n then 0 else Suc (normalise (2 * n) d))"
  by pat_completeness auto
termination
  by (relation "measure (\<lambda>(n, d). nat (2 ^ 52 * d - n))") auto

declare normalise.simps [simp del]

definition ceil_double_div :: "int \<Rightarrow> int \<Rightarrow> int" where
  "ceil_double_div x d =
     (if x = 0 then 0
      else
        (let n = \<bar>x\<bar>;
             sh = normalise n d;
             m = round_half_even (n * 2 ^ sh) d
         in if 0 < x then (m + 2 ^ sh - 1) div 2 ^ sh else - (m div 2 ^ sh)))"

text \<open>
  \<open>Math.ceil((end.getTime() - start.getTime()) / (1000 * 60 * 60 * 24)) + 1\<close>; \<open>NaN\<close> when
  either date is invalid.
\<close>

definition slot_days :: "platform \<Rightarrow> string \<Rightarrow> string \<Rightarrow> number" where
  "slot_days pf startDate endDate =
     (case (Date_getTime pf startDate, Date_getTime pf endDate) of
        (Some start, Some end) \<Rightarrow>
          Num (ceil_double_div (double_sub end start) (1000 * 60 * 60 * 24) + 1)
      | _ \<Rightarrow> NaN)"

definition slot_query :: "platform \<Rightarrow> NexHealthClient \<Rightarrow> slot_params \<Rightarrow> (string \<times> qval) list" where
  "slot_query pf c ps =
     [(''subdomain'', QRaw (subdomain c)),
      (''start_date'', QRaw (sp_startDate ps)),
      (''days'', QNum (slot_days pf (sp_startDate ps) (sp_endDate ps))),
      (''lids[]'', QNum (sp_locationId ps))]
     @ (if truthy_id (sp_providerId ps) then [(''pids[]'', QNum (Num (the (sp_providerId ps))))] else [])
     @ (if truthy_id (sp_appointmentTypeId ps)
        then [(''appointment_type_id'', QNum (Num (the (sp_appointmentTypeId ps))))] else [])"

definition getAppointmentSlots ::
  "platform \<Rightarrow> 's server \<Rightarrow> slot_params \<Rightarrow> NexHealthClient \<Rightarrow> 's world \<Rightarrow>
     (client_error + AppointmentSlot list) \<times> NexHealthClient \<times> 's world" where
  "getAppointmentSlots pf srv ps c w =
     (case request srv (get_appointment_slots srv) ''GET'' ''/appointment_slots''
             (slot_query pf c ps) None c w of
        (Inl e, c', w') \<Rightarrow> (Inl e, c', w')
      | (Inr d, c', w') \<Rightarrow> (Inr (unwrap_listing d), c', w'))"

record new_appointment =
  na_locationId :: number
  na_patientId :: int
  na_providerId :: "int option"
  na_startTime :: string
  na_note :: "string option"

definition createAppointment ::
  "'s server \<Rightarrow> new_appointment \<Rightarrow> NexHealthClient \<Rightarrow> 's world \<Rightarrow>
     (client_error + Appointment) \<times> NexHealthClient \<times> 's world" where
  "createAppointment srv a c w =
     request srv (post_appointments srv) ''POST'' ''/appointments'' []
       (Some (AppointmentBody (subdomain c) (na_locationId a) (na_patientId a)
                (na_providerId a) (na_startTime a) (na_note a))) c w"


text \<open>
  Any sequence of client operations, each after some idle time. \<open>run_ops\<close> returns the
  clock readings at which the operations start (the \<open>new Date()\<close> that \<open>authenticate\<close>
  compares with the expiry).
\<close>

datatype operation =
    OpGetProviders number
  | OpSearchPatients search_params
  | OpCreatePatient new_patient
  | OpGetAppointmentSlots slot_params
  | OpCreateAppointment new_appointment

definition failure :: "'e + 'a \<Rightarrow> 'e option" where
  "failure r = (case r of Inl e \<Rightarrow> Some e | Inr _ \<Rightarrow> None)"

definition outcome :: "('e + 'a) \<times> 'c \<Rightarrow> 'e option \<times> 'c" where
  "outcome x = (failure (fst x), snd x)"

definition perform ::
  "platform \<Rightarrow> 's server \<Rightarrow> operation \<Rightarrow> NexHealthClient \<Rightarrow> 's world \<Rightarrow>
     client_error option \<times> NexHealthClient \<times> 's world" where
  "perform pf srv op c w =
     (case op of
        OpGetProviders l \<Rightarrow> outcome (getProviders srv l c w)
      | OpSearchPatients ps \<Rightarrow> outcome (searchPatients srv ps c w)
      | OpCreatePatient p \<Rightarrow> outcome (createPatient srv p c w)
      | OpGetAppointmentSlots ps \<Rightarrow> outcome (getAppointmentSlots pf srv ps c w)
      | OpCreateAppointment a \<Rightarrow> outcome (createAppointment srv a c w))"

fun run_ops ::
  "platform \<Rightarrow> 's server \<Rightarrow> (nat \<times> operation) list \<Rightarrow> NexHealthClient \<Rightarrow> 's world \<Rightarrow>
     time list \<times> NexHealthClient \<times> 's world" where
  "run_ops pf srv [] c w = ([], c, w)"
| "run_ops pf srv ((d, op) # ops) c w =
     (case perform pf srv op c (idle d w) of
        (r, c1, w1) \<Rightarrow>
          (case run_ops pf srv ops c1 w1 of
             (ts, c2, w2) \<Rightarrow> (clock (idle d w) # ts, c2, w2)))"

definition is_auth :: "http_call \<Rightarrow> bool" where
  "is_auth call = (path call = ''/authenticates'')"

text \<open>The calls a step added to the log.\<close>

definition new_calls :: "'s world \<Rightarrow> 's world \<Rightarrow> http_call list" where
  "new_calls w w' = drop (length (sent w)) (sent w')"

section \<open>Rendering numbers and dates\<close>

function show_nat :: "nat \<Rightarrow> string" where
  "show_nat n =
     (if n < 10 then [''0123456789'' ! n]
      else show_nat (n div 10) @ [''0123456789'' ! (n mod 10)])"
  by pat_completeness auto
termination
  by (relation "measure id") auto

declare show_nat.simps [simp del]

definition show_int :: "int \<Rightarrow> string" where
  "show_int i = (if i < 0 then ''-'' @ show_nat (nat (- i)) else show_nat (nat i))"

definition pad :: "nat \<Rightarrow> string \<Rightarrow> string" where
  "pad n s = replicate (n - length s) CHR ''0'' @ s"

text \<open>
  \<open>new Date(t).toISOString().split('T')[0]\<close>: the UTC calendar date of the instant \<open>t\<close>,
  by the proleptic Gregorian calendar, with the expanded six-digit year outside
  0..9999.
\<close>

definition civil :: "int \<Rightarrow> int \<times> int \<times> int" where
  "civil days =
     (let z = days + 719468;
          era = z div 146097;
          doe = z mod 146097;
          yoe = (doe - doe div 1460 + doe div 36524 - doe div 146096) div 365;
          doy = doe - (365 * yoe + yoe div 4 - yoe div 100);
          mp = (5 * doy + 2) div 153;
          d = doy - (153 * mp + 2) div 5 + 1;
          m = (if mp < 10 then mp + 3 else mp - 9);
          y = yoe + era * 400 + (if m \<le> 2 then 1 else 0)
      in (y, m, d))"

definition toISODate :: "time \<Rightarrow> string" where
  "toISODate t =
     (case civil (t div 86400000) of
        (y, m, d) \<Rightarrow>
          (if 0 \<le> y \<and> y \<le> 9999 then pad 4 (show_nat (nat y))
           else (if y < 0 then ''-'' else ''+'') @ pad 6 (show_nat (nat \<bar>y\<bar>)))
          @ ''-'' @ pad 2 (show_nat (nat m)) @ ''-'' @ pad 2 (show_nat (nat d)))"

section \<open>The business configuration and its loader\<close>

record AgentConfig =
  agentName :: "string option"
  greeting :: "string option"
  pretendence :: "bool option"
  voice :: "string option"

record NexHealthConfig =
  config_subdomain :: "string option"
  config_locationId :: "string option"

record BusinessConfig =
  business_config_id :: string
  business_config_name :: string
  generalInfo :: GeneralInfo
  agentConfig :: AgentConfig
  pmsProvider :: "string option"
  nexhealthConfig :: NexHealthConfig
  dentalBridgeLocationId :: "string option"

text \<open>The rows of the two tables, with the columns the loader reads.\<close>

datatype services_column = ServicesArray "string list" | ServicesText string | ServicesNull

record business_row =
  business_id :: string
  business_name :: string
  phone_no :: "string option"
  practice_software :: "string option"
  no_show_fees :: "int option"
  business_address :: "string option"
  operating_hours :: "(string \<times> string) list option"
  business_services :: services_column
  nexhealth_subdomain :: "string option"
  nexhealth_location_id :: "string option"
  pms_provider :: "string option"
  dental_bridge_location_id :: "string option"

record agent_row =
  agent_name :: "string option"
  greeting_text :: "string option"
  agent_pretendence :: "bool option"
  agent_voice :: "string option"

definition upper_char :: "char \<Rightarrow> char" where
  "upper_char c =
     (case map_of (zip ''abcdefghijklmnopqrstuvwxyz'' ''ABCDEFGHIJKLMNOPQRSTUVWXYZ'') c of
        Some u \<Rightarrow> u | None \<Rightarrow> c)"

definition capitalize :: "string \<Rightarrow> string" where
  "capitalize day = (case day of [] \<Rightarrow> [] | c # cs \<Rightarrow> upper_char c # cs)"

fun join :: "string \<Rightarrow> string list \<Rightarrow> string" where
  "join sep [] = []"
| "join sep [x] = x"
| "join sep (x # y # ys) = x @ sep @ join sep (y # ys)"

definition or_else :: "string option \<Rightarrow> string \<Rightarrow> string" where
  "or_else v d = (if truthy_str v then the v else d)"

definition formatOperatingHours :: "(string \<times> string) list option \<Rightarrow> string" where
  "formatOperatingHours hrs =
     (case hrs of
        None \<Rightarrow> ''Not specified''
      | Some entries \<Rightarrow>
          (let formatted =
             join '', ''
               (map (\<lambda>(day, time). capitalize day @ '': '' @ time)
                  (filter (\<lambda>(day, time). time \<noteq> [] \<and> time \<noteq> ''Closed'') entries))
           in if formatted = [] then ''Not specified'' else formatted))"

definition to_config :: "business_row \<Rightarrow> agent_row option \<Rightarrow> BusinessConfig" where
  "to_config business agent =
     \<lparr>business_config_id = business_id business,
      business_config_name = business_name business,
      generalInfo =
        \<lparr>practiceName = business_name business,
         phone = or_else (phone_no business) ''Not provided'',
         software = or_else (practice_software business) ''Not specified'',
         noShowFee = (case no_show_fees business of None \<Rightarrow> 0 | Some n \<Rightarrow> n),
         address = or_else (business_address business) ''Not provided'',
         hours = formatOperatingHours (operating_hours business),
         services =
           (case business_services business of
              ServicesArray xs \<Rightarrow> join '', '' xs
            | ServicesText s \<Rightarrow> or_else (Some s) ''Not specified''
            | ServicesNull \<Rightarrow> ''Not specified''),
         rawHours = operating_hours business\<rparr>,
      agentConfig =
        \<lparr>agentName = (case agent of None \<Rightarrow> None | Some a \<Rightarrow> agent_name a),
         greeting = (case agent of None \<Rightarrow> None | Some a \<Rightarrow> greeting_text a),
         pretendence =
           Some (case agent of None \<Rightarrow> False
                 | Some a \<Rightarrow> (case agent_pretendence a of None \<Rightarrow> False | Some b \<Rightarrow> b)),
         voice =
           Some (or_else (case agent of None \<Rightarrow> None | Some a \<Rightarrow> agent_voice a) ''Puck'')\<rparr>,
      pmsProvider = pms_provider business,
      nexhealthConfig =
        \<lparr>config_subdomain = nexhealth_subdomain business,
         config_locationId = nexhealth_location_id business\<rparr>,
      dentalBridgeLocationId = dental_bridge_location_id business\<rparr>"

text \<open>
  A promise either fulfils or rejects some milliseconds after it was started, or stays
  pending for ever. \<open>await_then\<close> is \<open>await\<close> followed by the rest of the function body,
  \<open>try_catch\<close> is \<open>try { ... } catch (error) { ... }\<close> around awaited code.
\<close>

datatype 'a promise = Fulfilled nat 'a | Rejected nat string | Pending

definition later :: "nat \<Rightarrow> 'a promise \<Rightarrow> 'a promise" where
  "later t p =
     (case p of Fulfilled u x \<Rightarrow> Fulfilled (t + u) x | Rejected u e \<Rightarrow> Rejected (t + u) e
      | Pending \<Rightarrow> Pending)"

definition await_then :: "'a promise \<Rightarrow> ('a \<Rightarrow> 'b promise) \<Rightarrow> 'b promise" where
  "await_then p k =
     (case p of Fulfilled t x \<Rightarrow> later t (k x) | Rejected t e \<Rightarrow> Rejected t e
      | Pending \<Rightarrow> Pending)"

definition try_catch :: "'a promise \<Rightarrow> (string \<Rightarrow> 'a promise) \<Rightarrow> 'a promise" where
  "try_catch p handler =
     (case p of Rejected t e \<Rightarrow> later t (handler e) | _ \<Rightarrow> p)"

text \<open>
  \<open>Promise.race([p, timeoutPromise])\<close>, where the timer rejects after \<open>ms\<close> milliseconds:
  the promise wins when it settles strictly before the timer fires.
\<close>

definition race_timeout :: "'a promise \<Rightarrow> nat \<Rightarrow> 'a promise" where
  "race_timeout p ms =
     (case p of
        Fulfilled t x \<Rightarrow> if t < ms then Fulfilled t x else Rejected ms ''Config load timeout''
      | Rejected t e \<Rightarrow> if t < ms then Rejected t e else Rejected ms ''Config load timeout''
      | Pending \<Rightarrow> Rejected ms ''Config load timeout'')"

text \<open>
  The data-store client: the three queries the loader issues. A query resolves to
  \<open>{data, error}\<close>, rejects, or hangs.
\<close>

record 'row query_result =
  data :: "'row list option"
  error :: "string option"

record supabase_client =
  businesses_by_id :: "string \<Rightarrow> business_row query_result promise"
  businesses_any :: "business_row query_result promise"
  agents_by_business :: "string \<Rightarrow> agent_row query_result promise"

definition TIMEOUT_MS :: nat where
  "TIMEOUT_MS = 10000"

definition no_rows :: "'a list option \<Rightarrow> bool" where
  "no_rows rows = (case rows of None \<Rightarrow> True | Some xs \<Rightarrow> xs = [])"

text \<open>
  The first half of \<open>loadBusinessConfigInternal\<close>: the query by id when an id is given,
  then, when that left no row, the query for any business, whose answer replaces both
  \<open>businesses\<close> and \<open>bizError\<close>.
\<close>

definition business_lookup ::
  "supabase_client \<Rightarrow> string option \<Rightarrow> (business_row list option \<times> string option) promise" where
  "business_lookup db businessId =
     await_then
       (if truthy_str businessId
        then await_then (businesses_by_id db (the businessId))
               (\<lambda>result. Fulfilled 0 (data result, error result))
        else Fulfilled 0 (None, None))
       (\<lambda>(businesses, bizError).
          if no_rows businesses
          then await_then (businesses_any db)
                 (\<lambda>result. Fulfilled 0 (data result, error result))
          else Fulfilled 0 (businesses, bizError))"

definition loadBusinessConfigInternal ::
  "supabase_client option \<Rightarrow> string option \<Rightarrow> BusinessConfig option promise" where
  "loadBusinessConfigInternal supabase businessId =
     try_catch
       (case supabase of
          None \<Rightarrow> Fulfilled 0 None
        | Some db \<Rightarrow>
            await_then (business_lookup db businessId)
              (\<lambda>(businesses, bizError).
                 if bizError \<noteq> None then Fulfilled 0 None
                 else if no_rows businesses then Fulfilled 0 None
                 else
                   (let business = hd (the businesses) in
                    await_then (agents_by_business db (business_id business))
                      (\<lambda>result.
                         Fulfilled 0
                           (Some (to_config business
                                    (case data result of
                                       Some (a # _) \<Rightarrow> Some a
                                     | _ \<Rightarrow> None)))))))
       (\<lambda>error. Fulfilled 0 None)"

definition loadBusinessConfig ::
  "supabase_client option \<Rightarrow> string option \<Rightarrow> BusinessConfig option promise" where
  "loadBusinessConfig supabase businessId =
     try_catch (race_timeout (loadBusinessConfigInternal supabase businessId) TIMEOUT_MS)
       (\<lambda>error. Fulfilled 0 None)"

section \<open>The prompt and the session state of createDynamicAgent\<close>

definition identityInstructions :: "BusinessConfig \<Rightarrow> string" where
  "identityInstructions config =
     (let name = interpolate (agentName (agentConfig config));
          practice = practiceName (generalInfo config)
      in if (case pretendence (agentConfig config) of None \<Rightarrow> False | Some b \<Rightarrow> b)
         then ''You are '' @ name @ '', a receptionist at '' @ practice
              @ ''. Act naturally as a helpful human receptionist.''
         else ''You are '' @ name @ '', an AI assistant receptionist at '' @ practice
              @ ''. When asked, honestly say you are an AI assistant. Never pretend to be human.'')"

definition procedure_lines :: "string list" where
  \<open>procedure_lines =
     [''GOAL: Helps callers with their inquiries and book appointments efficiently and naturally.'',
      '''',
      ''TOOLS:'',
      ''- getAvailableSlots: Check availability (uses practice operating hours).'',
      ''- searchPatient: Find existing patient by name/phone.'',
      ''- searchPatientByEmail: Find by email.'',
      ''- createPatient: Register new patient (Name, Email, Phone, DOB, Gender required).'',
      ''- bookAppointment: Finalize booking (Patient info + Time).'',
      ''- getPracticeInfo: General Q&A (Hours, location, etc).'',
      '''',
      ''CRITICAL RULES:'',
      ''- **Identity**: You know your name and role. DO NOT use tools to find out who you are.'',
      ''- **Tool Usage**: Use tools ONLY when you need external data.'',
      ''- **Phasing**: Do NOT say "Let me check that" for simple questions.'',
      ''- **Tone**: Be warm, professional, and efficient.'',
      ''- **Style**: OCCASIONALLY use natural fillers like "ummm", "aaah", "let me see" to sound more human. Don't overdo it, but use them when processing or transitioning.'',
      ''- **Brevity**: Keep responses under 2 sentences unless explaining complex info.'',
      ''- **GREETING**: Always start the conversation by introducing yourself. Do NOT ask for the user's name immediately unless they want to book an appointment.'',
      '''',
      ''PROCEDURES:'',
      ''1. **GREETING**: Wait for the user to respond to your greeting.'',
      ''2. **INQUIRY**: Answer questions about hours, services, location, etc.'',
      ''3. **BOOKING (Only if user asks to book)**:'',
      ''   a. **STEP 1**: Ask for **First Name**. Wait for answer.'',
      ''   b. **STEP 2**: Ask for **Last Name**. Wait for answer.'',
      ''   c. **STEP 3**: Ask for **Phone Number**. Wait for answer.'',
      ''   d. **STEP 4**: Call `searchPatient` with the collected info.'',
      ''      - **IF FOUND**: SILENTLY acknowledge it. **DO NOT** say "I found John Smith". Just say something like "Okay, I have your file pulled up." or "Great, thanks." and immediately move to asking about appointment times.'',
      ''      - **IF NOT FOUND**: The tool will tell you. You can say "I couldn't find a file with that info..." and ask for Email, DOB, Gender to `createPatient`.'',
      ''   e. Check availability -> `getAvailableSlots`.'',
      ''   f. Offer 2-3 slots based on the operating hours returned.'',
      ''   g. Confirm & Book -> `bookAppointment`.'',
      '''',
      ''One question at a time. Wait for user answer.'']\<close>

definition unlines :: "string list \<Rightarrow> string" where
  "unlines ls = concat (map (\<lambda>l. l @ [CHR 0x0A]) ls)"

text \<open>
  The template literal \<open>fullInstructions\<close>; \<open>now\<close> is the clock reading of
  \<open>new Date()\<close> on the first line of \<open>createDynamicAgent\<close>.
\<close>

definition fullInstructions :: "BusinessConfig \<Rightarrow> time \<Rightarrow> string" where
  "fullInstructions config now =
     (let today = toISODate now; gi = generalInfo config
      in unlines
           ([identityInstructions config @ '' Today is '' @ today @ ''.'', '''', '''']
            @ procedure_lines
            @ ['''',
               ''Practice: '' @ practiceName gi,
               ''Address: '' @ address gi,
               ''Phone: '' @ phone gi,
               ''Hours: '' @ hours gi,
               ''Services: '' @ services gi,
               ''No-Show Fee: $'' @ show_int (noShowFee gi)]))"

text \<open>
  The variables the tools close over: the client (or \<open>null\<close>), the location id, the two
  tracked ids, and the practice's fields.
\<close>

record Session =
  nexhealth :: "NexHealthClient option"
  locationId :: number
  currentPatientId :: "int option"
  currentProviderId :: "int option"
  practice :: GeneralInfo

definition new_session :: "platform \<Rightarrow> string option \<Rightarrow> BusinessConfig \<Rightarrow> Session" where
  "new_session pf nexhealthApiKey config =
     \<lparr>nexhealth =
        (if truthy_str nexhealthApiKey \<and> truthy_str (config_subdomain (nexhealthConfig config))
         then Some (new_NexHealthClient (the nexhealthApiKey)
                      (the (config_subdomain (nexhealthConfig config))) None)
         else None),
      locationId =
        (if truthy_str (config_locationId (nexhealthConfig config))
         then parseInt pf (the (config_locationId (nexhealthConfig config)))
         else Num 0),
      currentPatientId = None,
      currentProviderId = None,
      practice = generalInfo config\<rparr>"

definition createDynamicAgent ::
  "platform \<Rightarrow> string option \<Rightarrow> BusinessConfig \<Rightarrow> time \<Rightarrow> string \<times> Session" where
  "createDynamicAgent pf nexhealthApiKey config now =
     (fullInstructions config now, new_session pf nexhealthApiKey config)"

section \<open>The tools\<close>

definition not_configured :: string where
  "not_configured = ''Booking system not configured. Please call the office directly.''"

definition patient_found :: string where
  "patient_found = ''Patient record found. Proceed directly to asking for appointment preference. Do not announce the patient's name.''"

definition patient_not_found :: string where
  "patient_not_found = ''Patient not found in our system. I'll need to collect more information to create a new patient record.''"

definition search_trouble :: string where
  "search_trouble = ''I had trouble searching for the patient. Please try again.''"

definition patient_found_by_email :: string where
  "patient_found_by_email = ''Patient record found. Proceed directly to asking for appointment preference.''"

definition email_not_found :: string where
  "email_not_found = ''I couldn't find a record with that email. Let me create a new record for you.''"

definition email_trouble :: string where
  "email_trouble = ''I had trouble searching. Let me create a new record for you.''"

definition patient_created :: "string \<Rightarrow> string \<Rightarrow> string" where
  "patient_created firstName lastName =
     ''Great! I've created a patient record for '' @ firstName @ '' '' @ lastName
     @ ''. Now let me check our availability.''"

definition create_trouble :: string where
  "create_trouble = ''I had trouble creating the patient record. Please try again or call the office directly.''"

definition closed_on :: "string \<Rightarrow> string \<Rightarrow> string" where
  "closed_on searchStartDate dayName =
     ''We are closed on '' @ searchStartDate @ '' ('' @ dayName @ ''). Please check another day.''"

definition open_on :: "string \<Rightarrow> string \<Rightarrow> string \<Rightarrow> string" where
  "open_on searchStartDate dayName hoursForDay =
     ''We are open on '' @ searchStartDate @ '' ('' @ dayName @ '') from '' @ hoursForDay
     @ ''. You can request any time within these hours.''"

definition slots_trouble :: string where
  "slots_trouble = ''I'm having trouble checking availability right now. Please try again.''"

definition need_patient_information :: string where
  "need_patient_information = ''I need to have your patient information first. Can you give me your name and email?''"

definition no_provider :: string where
  "no_provider = ''I couldn't find an available provider. Please call the office directly.''"

definition appointment_confirmed :: "platform \<Rightarrow> string \<Rightarrow> string" where
  "appointment_confirmed pf startTime =
     ''Your appointment is confirmed for '' @ toLocaleDateString pf startTime @ '' at ''
     @ toLocaleTimeString pf startTime @ ''. You'll receive a confirmation email shortly.''"

definition book_trouble :: string where
  "book_trouble = ''I'm having trouble booking right now. Please try again or call the office directly.''"

definition name_and_phone :: "Session \<Rightarrow> string \<Rightarrow> string \<Rightarrow> search_params" where
  "name_and_phone s fullName phoneNo =
     \<lparr>search_name = Some fullName, search_email = None, search_phone = Some phoneNo,
      search_locationId = locationId s\<rparr>"

definition name_only :: "Session \<Rightarrow> string \<Rightarrow> search_params" where
  "name_only s fullName =
     \<lparr>search_name = Some fullName, search_email = None, search_phone = None,
      search_locationId = locationId s\<rparr>"

definition email_only :: "Session \<Rightarrow> string \<Rightarrow> search_params" where
  "email_only s mail =
     \<lparr>search_name = None, search_email = Some mail, search_phone = None,
      search_locationId = locationId s\<rparr>"

definition searchPatient ::
  "'s server \<Rightarrow> string \<Rightarrow> string \<Rightarrow> string \<Rightarrow> Session \<Rightarrow> 's world \<Rightarrow>
     string \<times> Session \<times> 's world" where
  "searchPatient srv firstName lastName phoneNo s w =
     (let fullName = firstName @ '' '' @ lastName in
      case nexhealth s of
        None \<Rightarrow> (not_configured, s, w)
      | Some c \<Rightarrow>
          (case searchPatients srv (name_and_phone s fullName phoneNo) c w of
             (Inl e, c1, w1) \<Rightarrow> (search_trouble, s\<lparr>nexhealth := Some c1\<rparr>, w1)
           | (Inr patients, c1, w1) \<Rightarrow>
               (case (if patients = [] then searchPatients srv (name_only s fullName) c1 w1
                      else (Inr patients, c1, w1)) of
                  (Inl e, c2, w2) \<Rightarrow> (search_trouble, s\<lparr>nexhealth := Some c2\<rparr>, w2)
                | (Inr patients, c2, w2) \<Rightarrow>
                    (case patients of
                       p # _ \<Rightarrow>
                         (patient_found,
                          s\<lparr>nexhealth := Some c2, currentPatientId := Some (patient_id p)\<rparr>, w2)
                     | [] \<Rightarrow> (patient_not_found, s\<lparr>nexhealth := Some c2\<rparr>, w2)))))"

definition searchPatientByEmail ::
  "'s server \<Rightarrow> string \<Rightarrow> Session \<Rightarrow> 's world \<Rightarrow> string \<times> Session \<times> 's world" where
  "searchPatientByEmail srv mail s w =
     (case nexhealth s of
        None \<Rightarrow> (not_configured, s, w)
      | Some c \<Rightarrow>
          (case searchPatients srv (email_only s mail) c w of
             (Inl e, c1, w1) \<Rightarrow> (email_trouble, s\<lparr>nexhealth := Some c1\<rparr>, w1)
           | (Inr patients, c1, w1) \<Rightarrow>
               (case patients of
                  p # _ \<Rightarrow>
                    (patient_found_by_email,
                     s\<lparr>nexhealth := Some c1, currentPatientId := Some (patient_id p)\<rparr>, w1)
                | [] \<Rightarrow> (email_not_found, s\<lparr>nexhealth := Some c1\<rparr>, w1))))"

definition createPatient_tool ::
  "'s server \<Rightarrow> string \<Rightarrow> string \<Rightarrow> string \<Rightarrow> string \<Rightarrow> string \<Rightarrow> gender \<Rightarrow>
     Session \<Rightarrow> 's world \<Rightarrow> string \<times> Session \<times> 's world" where
  "createPatient_tool srv firstName lastName mail phoneNo dateOfBirth gen s w =
     (case nexhealth s of
        None \<Rightarrow> (not_configured, s, w)
      | Some c \<Rightarrow>
          (case createPatient srv
                  \<lparr>np_firstName = firstName, np_lastName = lastName, np_email = mail,
                   np_phone = phoneNo, np_dateOfBirth = dateOfBirth, np_gender = gen,
                   np_locationId = locationId s\<rparr> c w of
             (Inl e, c1, w1) \<Rightarrow> (create_trouble, s\<lparr>nexhealth := Some c1\<rparr>, w1)
           | (Inr patient, c1, w1) \<Rightarrow>
               (patient_created firstName lastName,
                s\<lparr>nexhealth := Some c1, currentPatientId := Some (patient_id patient)\<rparr>, w1)))"

text \<open>
  The provider lookup that opens \<open>getAvailableSlots\<close> and precedes the booking call:
  \<open>Inl\<close> when \<open>getProviders\<close> throws, otherwise the session with the first provider's id
  stored when the list is not empty.
\<close>

definition fetch_provider ::
  "'s server \<Rightarrow> NexHealthClient \<Rightarrow> Session \<Rightarrow> 's world \<Rightarrow>
     (client_error + Provider list) \<times> Session \<times> 's world" where
  "fetch_provider srv c s w =
     (case getProviders srv (locationId s) c w of
        (Inl e, c1, w1) \<Rightarrow> (Inl e, s\<lparr>nexhealth := Some c1\<rparr>, w1)
      | (Inr providers, c1, w1) \<Rightarrow>
          (Inr providers,
           (case providers of
              p # _ \<Rightarrow> s\<lparr>nexhealth := Some c1, currentProviderId := Some (provider_id p)\<rparr>
            | [] \<Rightarrow> s\<lparr>nexhealth := Some c1\<rparr>),
           w1))"

definition days :: "string list" where
  "days = [''sunday'', ''monday'', ''tuesday'', ''wednesday'', ''thursday'', ''friday'',
           ''saturday'']"

definition dayName :: "platform \<Rightarrow> string \<Rightarrow> string" where
  "dayName pf searchStartDate =
     (case Date_getDay pf (searchStartDate @ ''T12:00:00'') of
        None \<Rightarrow> ''monday''
      | Some n \<Rightarrow> if n < length days then days ! n else ''monday'')"

definition hoursForDay :: "Session \<Rightarrow> string \<Rightarrow> string option" where
  "hoursForDay s day =
     (case rawHours (practice s) of None \<Rightarrow> None | Some entries \<Rightarrow> map_of entries day)"

text \<open>
  The second half of \<open>getAvailableSlots\<close>: the answer read off the configured hours of
  the weekday of the start date (today's date when none is given).
\<close>

definition report_hours ::
  "platform \<Rightarrow> string option \<Rightarrow> Session \<Rightarrow> 's world \<Rightarrow> string \<times> Session \<times> 's world" where
  "report_hours pf startDate s w =
     (let searchStartDate = (case startDate of Some d \<Rightarrow> d | None \<Rightarrow> toISODate (clock w));
          day = dayName pf searchStartDate
      in case hoursForDay s day of
           None \<Rightarrow> (closed_on searchStartDate day, s, w)
         | Some h \<Rightarrow>
             if h = [] \<or> toLowerCase h = ''closed''
             then (closed_on searchStartDate day, s, w)
             else (open_on searchStartDate day h, s, w))"

definition getAvailableSlots ::
  "platform \<Rightarrow> 's server \<Rightarrow> string option \<Rightarrow> int option \<Rightarrow> Session \<Rightarrow> 's world \<Rightarrow>
     string \<times> Session \<times> 's world" where
  "getAvailableSlots pf srv startDate daysToCheck s w =
     (case (if \<not> truthy_id (currentProviderId s) \<and> nexhealth s \<noteq> None
            then fetch_provider srv (the (nexhealth s)) s w
            else (Inr [], s, w)) of
        (Inl e, s1, w1) \<Rightarrow> (slots_trouble, s1, w1)
      | (Inr _, s1, w1) \<Rightarrow> report_hours pf startDate s1 w1)"

definition bookAppointment ::
  "platform \<Rightarrow> 's server \<Rightarrow> string \<Rightarrow> string option \<Rightarrow> Session \<Rightarrow> 's world \<Rightarrow>
     string \<times> Session \<times> 's world" where
  "bookAppointment pf srv startTime reason s w =
     (case nexhealth s of
        None \<Rightarrow> (not_configured, s, w)
      | Some c \<Rightarrow>
          if \<not> truthy_id (currentPatientId s) then (need_patient_information, s, w)
          else
            (case (if \<not> truthy_id (currentProviderId s) then fetch_provider srv c s w
                   else (Inr [], s, w)) of
               (Inl e, s1, w1) \<Rightarrow> (book_trouble, s1, w1)
             | (Inr providers, s1, w1) \<Rightarrow>
                 if \<not> truthy_id (currentProviderId s) \<and> providers = []
                 then (no_provider, s1, w1)
                 else
                   (case createAppointment srv
                           \<lparr>na_locationId = locationId s1,
                            na_patientId = the (currentPatientId s1),
                            na_providerId = currentProviderId s1,
                            na_startTime = startTime, na_note = reason\<rparr>
                           (the (nexhealth s1)) w1 of
                      (Inl e, c2, w2) \<Rightarrow> (book_trouble, s1\<lparr>nexhealth := Some c2\<rparr>, w2)
                    | (Inr appointment, c2, w2) \<Rightarrow>
                        (appointment_confirmed pf startTime, s1\<lparr>nexhealth := Some c2\<rparr>, w2))))"

text \<open>
  \<open>getPracticeInfo\<close> looks the lower-cased key up in its five-entry table; the properties
  that every object inherits are not in the table here.
\<close>

definition getPracticeInfo :: "platform \<Rightarrow> string \<Rightarrow> Session \<Rightarrow> string" where
  "getPracticeInfo pf infoType s =
     (let gi = practice s;
          info = [(''hours'', hours gi), (''location'', address gi), (''services'', services gi),
                  (''contact'', phone gi), (''noshowfee'', ''$'' @ show_int (noShowFee gi))]
      in case map_of info (toLowerCase infoType) of
           Some v \<Rightarrow> if v \<noteq> [] then v else JSON_stringify pf gi
         | None \<Rightarrow> JSON_stringify pf gi)"

datatype tool_call =
    SearchPatient string string string
  | SearchPatientByEmail string
  | CreatePatient string string string string string gender
  | GetAvailableSlots "string option" "int option"
  | BookAppointment string "string option"
  | GetPracticeInfo string

definition execute ::
  "platform \<Rightarrow> 's server \<Rightarrow> tool_call \<Rightarrow> Session \<Rightarrow> 's world \<Rightarrow> string \<times> Session \<times> 's world" where
  "execute pf srv call s w =
     (case call of
        SearchPatient firstName lastName phoneNo \<Rightarrow> searchPatient srv firstName lastName phoneNo s w
      | SearchPatientByEmail mail \<Rightarrow> searchPatientByEmail srv mail s w
      | CreatePatient firstName lastName mail phoneNo dateOfBirth gen \<Rightarrow>
          createPatient_tool srv firstName lastName mail phoneNo dateOfBirth gen s w
      | GetAvailableSlots startDate daysToCheck \<Rightarrow> getAvailableSlots pf srv startDate daysToCheck s w
      | BookAppointment startTime reason \<Rightarrow> bookAppointment pf srv startTime reason s w
      | GetPracticeInfo infoType \<Rightarrow> (getPracticeInfo pf infoType s, s, w))"

text \<open>
  One conversation: the tool calls the language model makes, each after some idle time,
  with the result string of each.
\<close>

fun conversation ::
  "platform \<Rightarrow> 's server \<Rightarrow> (nat \<times> tool_call) list \<Rightarrow> Session \<Rightarrow> 's world \<Rightarrow>
     (tool_call \<times> string) list \<times> Session \<times> 's world" where
  "conversation pf srv [] s w = ([], s, w)"
| "conversation pf srv ((d, call) # calls) s w =
     (case execute pf srv call s (idle d w) of
        (r, s1, w1) \<Rightarrow>
          (case conversation pf srv calls s1 w1 of
             (rs, s2, w2) \<Rightarrow> ((call, r) # rs, s2, w2)))"

text \<open>A tool call resolved a patient when it answered with its success message.\<close>

definition resolved :: "tool_call \<times> string \<Rightarrow> bool" where
  "resolved cr =
     (case cr of
        (SearchPatient firstName lastName phoneNo, r) \<Rightarrow> r = patient_found
      | (SearchPatientByEmail mail, r) \<Rightarrow> r = patient_found_by_email
      | (CreatePatient firstName lastName mail phoneNo dateOfBirth gen, r) \<Rightarrow>
          r = patient_created firstName lastName
      | _ \<Rightarrow> False)"

definition is_booking :: "tool_call \<Rightarrow> bool" where
  "is_booking call = (case call of BookAppointment _ _ \<Rightarrow> True | _ \<Rightarrow> False)"

section \<open>Example servers, sessions and data stores\<close>

definition answering :: "nat \<Rightarrow> 'a \<Rightarrow> ('s, 'a) handler" where
  "answering d x = (\<lambda>call st. (d, OkJson x, st))"

text \<open>The world after a handler built with \<open>answering\<close> has served a call.\<close>

definition answered :: "nat \<Rightarrow> http_call \<Rightarrow> 's world \<Rightarrow> 's world" where
  "answered d call w = w\<lparr>clock := clock w + int d, sent := sent w @ [call]\<rparr>"

definition refusing :: "nat \<Rightarrow> nat \<Rightarrow> string \<Rightarrow> ('s, 'a) handler" where
  "refusing d status text = (\<lambda>call st. (d, NotOk status text, st))"

definition ann :: Patient where
  "ann = \<lparr>patient_id = 42, first_name = ''Ann'', last_name = ''Lee'', email = None\<rparr>"

definition dr_ray :: Provider where
  "dr_ray = \<lparr>provider_id = 11, provider_first_name = ''Ray'', provider_last_name = ''Cole''\<rparr>"

definition visit :: Appointment where
  "visit = \<lparr>appointment_id = 900, appointment_patient_id = 42, appointment_provider_id = 11,
            start_time = ''2024-01-01T09:00:00''\<rparr>"

text \<open>
  A server that counts the tokens it has issued, knows Ann Lee by name but not by
  phone, and accepts new patients and appointments.
\<close>

definition demo_server :: "nat server" where
  "demo_server =
     \<lparr>post_authenticates =
        (\<lambda>call n. (120, OkJson \<lparr>data_token = Some ''secret'', top_token = None\<rparr>, Suc n)),
      get_providers = answering 80 [dr_ray],
      get_patients =
        (\<lambda>call n. (90, OkJson (if map_of (params call) ''phone'' = None then Bare [ann]
                                 else Wrapped (Some [])), n)),
      post_patients = answering 100 (ann\<lparr>patient_id := 43\<rparr>),
      get_appointment_slots = answering 70 (Wrapped (Some [])),
      post_appointments = answering 110 visit\<rparr>"

text \<open>The same server when its authentication endpoint is out of service.\<close>

definition down_server :: "nat server" where
  "down_server = demo_server\<lparr>post_authenticates := refusing 30 503 ''Service Unavailable''\<rparr>"

text \<open>A server whose only patient has the identifier 0.\<close>

definition zero_id_server :: "nat server" where
  "zero_id_server = demo_server\<lparr>get_patients := answering 90 (Bare [ann\<lparr>patient_id := 0\<rparr>])\<rparr>"

definition demo_platform :: platform where
  "demo_platform =
     \<lparr>Date_getTime =
        (\<lambda>s. if s = ''2024-01-01'' then Some 1704067200000
              else if s = ''2024-01-03'' then Some 1704240000000 else None),
      Date_getDay = (\<lambda>s. if s = ''2024-01-01T12:00:00'' then Some 1 else None),
      toLocaleDateString = (\<lambda>s. ''Monday, January 1''),
      toLocaleTimeString = (\<lambda>s. ''9:00 AM''),
      parseInt = (\<lambda>s. if s = ''7'' then Num 7 else NaN),
      JSON_stringify = (\<lambda>g. ''{}'')\<rparr>"

definition demo_row :: business_row where
  "demo_row =
     \<lparr>business_id = ''b1'', business_name = ''Smile Dental'', phone_no = Some ''555-0100'',
      practice_software = None, no_show_fees = Some 25, business_address = None,
      operating_hours = Some [(''monday'', ''Closed''), (''tuesday'', ''9am-5pm'')],
      business_services = ServicesArray [''Cleaning'', ''Whitening''],
      nexhealth_subdomain = Some ''smile'', nexhealth_location_id = Some ''7'',
      pms_provider = Some ''nexhealth'', dental_bridge_location_id = None\<rparr>"

definition demo_agent :: agent_row where
  "demo_agent =
     \<lparr>agent_name = Some ''Mia'', greeting_text = Some ''Hello!'', agent_pretendence = None,
      agent_voice = None\<rparr>"

definition demo_config :: BusinessConfig where
  "demo_config = to_config demo_row (Some demo_agent)"

definition demo_store :: supabase_client where
  "demo_store =
     \<lparr>businesses_by_id =
        (\<lambda>i. Fulfilled 40 \<lparr>data = Some (if i = ''b1'' then [demo_row] else []), error = None\<rparr>),
      businesses_any = Fulfilled 35 \<lparr>data = Some [demo_row], error = None\<rparr>,
      agents_by_business = (\<lambda>i. Fulfilled 25 \<lparr>data = Some [demo_agent], error = None\<rparr>)\<rparr>"

definition demo_session :: Session where
  "demo_session = new_session demo_platform (Some ''key'') demo_config"

definition demo_client :: NexHealthClient where
  "demo_client =
     (new_NexHealthClient ''key'' ''smile'' None)
       \<lparr>bearerToken := Some ''secret'', tokenExpiry := Some 1704070500000\<rparr>"

definition demo_world :: "nat world" where
  "demo_world = \<lparr>clock = 1704067200000, remote = 0, sent = []\<rparr>"

definition demo_search :: search_params where
  "demo_search =
     \<lparr>search_name = Some ''Ann Lee'', search_email = None, search_phone = None,
      search_locationId = Num 7\<rparr>"

definition demo_slot_params :: slot_params where
  "demo_slot_params =
     \<lparr>sp_locationId = Num 7, sp_providerId = Some 11, sp_appointmentTypeId = None,
      sp_startDate = ''2024-01-01'', sp_endDate = ''2024-01-03''\<rparr>"

definition demo_ops :: "(nat \<times> operation) list" where
  "demo_ops = [(1000, OpGetProviders (Num 7)), (10, OpSearchPatients demo_search)]"

text \<open>The patient searches among some calls.\<close>

definition searches :: "http_call list \<Rightarrow> http_call list" where
  "searches calls = filter (\<lambda>k. path k = ''/patients'' \<and> http_method k = ''GET'') calls"

text \<open>Every patient the server delivers, found or created, has a non-zero identifier.\<close>

definition nonzero_ids :: "'s server \<Rightarrow> bool" where
  "nonzero_ids srv =
     (\<forall>call st.
        (case get_patients srv call st of
           (d, OkJson x, st') \<Rightarrow> \<forall>p\<in>set (unwrap_listing x). patient_id p \<noteq> 0
         | _ \<Rightarrow> True) \<and>
        (case post_patients srv call st of
           (d, OkJson p, st') \<Rightarrow> patient_id p \<noteq> 0
         | _ \<Rightarrow> True))"

text \<open>A server that knows no patient, and one that finds Ann Lee by any search.\<close>

definition empty_server :: "nat server" where
  "empty_server = demo_server\<lparr>get_patients := answering 90 (Wrapped (Some []))\<rparr>"

definition ann_server :: "nat server" where
  "ann_server = demo_server\<lparr>get_patients := answering 90 (Bare [ann])\<rparr>"

text \<open>A data store whose lookup by id never answers, and one whose lookup by id rejects.\<close>

definition hanging_store :: supabase_client where
  "hanging_store = demo_store\<lparr>businesses_by_id := (\<lambda>i. Pending)\<rparr>"

definition failing_store :: supabase_client where
  "failing_store = demo_store\<lparr>businesses_by_id := (\<lambda>i. Rejected 12 ''fetch failed'')\<rparr>"

text \<open>
  A server that answers every authentication with an empty token; a platform that
  parses two instants 134217728 days and one millisecond apart; a data store whose
  lookup by id and whose agent lookup both report an error while the lookup of any
  business works.
\<close>

definition blank_token_server :: "nat server" where
  "blank_token_server =
     demo_server
       \<lparr>post_authenticates :=
          (\<lambda>call n. (120, OkJson \<lparr>data_token = None, top_token = Some ''''\<rparr>, Suc n))\<rparr>"

definition far_platform :: platform where
  "far_platform =
     demo_platform
       \<lparr>Date_getTime :=
          (\<lambda>s. if s = ''-181768-03-04'' then Some (- 5798205849600000)
                else if s = ''+185707-10-31T00:00:00.001Z'' then Some 5798205849600001
                else None)\<rparr>"

definition far_slot_params :: slot_params where
  "far_slot_params =
     \<lparr>sp_locationId = Num 7, sp_providerId = None, sp_appointmentTypeId = None,
      sp_startDate = ''-181768-03-04'', sp_endDate = ''+185707-10-31T00:00:00.001Z''\<rparr>"

definition masked_store :: supabase_client where
  "masked_store =
     \<lparr>businesses_by_id =
        (\<lambda>i. Fulfilled 40 \<lparr>data = None, error = Some ''permission denied''\<rparr>),
      businesses_any = Fulfilled 35 \<lparr>data = Some [demo_row], error = None\<rparr>,
      agents_by_business =
        (\<lambda>i. Fulfilled 25 \<lparr>data = None, error = Some ''relation does not exist''\<rparr>)\<rparr>"

text \<open>
  A data store whose lookup of any business takes as long as the loader's timer, and
  one whose lookup of any business reports an error.
\<close>

definition slow_store :: supabase_client where
  "slow_store =
     demo_store
       \<lparr>businesses_any := Fulfilled 10000 \<lparr>data = Some [demo_row], error = None\<rparr>\<rparr>"

definition broken_store :: supabase_client where
  "broken_store =
     demo_store
       \<lparr>businesses_any := Fulfilled 35 \<lparr>data = None, error = Some ''connection refused''\<rparr>\<rparr>"

section \<open>The token cache\<close>

lemma authenticate_valid:
  "has_valid_token c (clock w) \<Longrightarrow> authenticate srv c w = (Inr (bearerToken c), c, w)"
  by (simp add: authenticate_def)

lemma fetch_sent:
  "fetch h call w = (r, w') \<Longrightarrow> sent w' = sent w @ [call] \<and> clock w \<le> clock w'"
  by (auto simp: fetch_def split: prod.splits)

lemma request_valid:
  assumes "has_valid_token c (clock w)" and "request srv h m p q b c w = (r, c', w')"
  shows "c' = c \<and> sent w' = sent w @ [api_call c m p q b (bearerToken c)] \<and> clock w \<le> clock w'"
proof -
  obtain rf wf where f: "fetch h (api_call c m p q b (bearerToken c)) w = (rf, wf)"
    by (cases "fetch h (api_call c m p q b (bearerToken c)) w") auto
  from assms(2) f have "c' = c" "w' = wf"
    by (auto simp: request_def authenticate_valid[OF assms(1)] split: reply.splits)
  with fetch_sent[OF f] show ?thesis by simp
qed

lemma authenticate_invalid:
  assumes "\<not> has_valid_token c (clock w)" and "authenticate srv c w = (r, c', w')"
  shows "sent w' = sent w @ [auth_call c] \<and> clock w \<le> clock w' \<and>
         (case r of Inl e \<Rightarrow> c' = c
          | Inr tok \<Rightarrow> c' = c\<lparr>bearerToken := tok, tokenExpiry := Some (clock w' + 3300000)\<rparr>)"
proof -
  obtain rf wf where f: "fetch (post_authenticates srv) (auth_call c) w = (rf, wf)"
    by (cases "fetch (post_authenticates srv) (auth_call c) w") auto
  from assms f have "w' = wf"
    by (auto simp: authenticate_def Let_def split: reply.splits)
  moreover from assms f have
    "case r of Inl e \<Rightarrow> c' = c
     | Inr tok \<Rightarrow> c' = c\<lparr>bearerToken := tok, tokenExpiry := Some (clock wf + 3300000)\<rparr>"
    by (auto simp: authenticate_def Let_def split: reply.splits)
  ultimately show ?thesis using fetch_sent[OF f] by (simp split: sum.splits)
qed

lemma request_invalid:
  assumes "\<not> has_valid_token c (clock w)" and "request srv h m p q b c w = (r, c', w')"
  shows "(sent w' = sent w @ [auth_call c] \<and> (\<exists>e. r = Inl e)) \<or>
         sent w' = sent w @ [auth_call c, api_call c' m p q b (bearerToken c')]"
proof -
  obtain ra ca wa where a: "authenticate srv c w = (ra, ca, wa)"
    by (cases "authenticate srv c w") auto
  note inv = authenticate_invalid[OF assms(1) a]
  show ?thesis
  proof (cases ra)
    case (Inl e)
    with a assms(2) inv show ?thesis by (auto simp: request_def)
  next
    case (Inr tok)
    obtain rf wf where f: "fetch h (api_call ca m p q b tok) wa = (rf, wf)"
      by (cases "fetch h (api_call ca m p q b tok) wa") auto
    from a Inr f assms(2) have "c' = ca" "w' = wf"
      by (auto simp: request_def split: reply.splits)
    with fetch_sent[OF f] inv Inr show ?thesis by simp
  qed
qed

lemma outcome_eq:
  "outcome x = (r, c', w') \<Longrightarrow> \<exists>y. x = (y, c', w') \<and> r = failure y"
  by (cases x) (simp add: outcome_def)

lemma searchPatients_outcome:
  "outcome (searchPatients srv ps c w) =
   outcome (request srv (get_patients srv) ''GET'' ''/patients'' (search_query c ps) None c w)"
  by (simp add: searchPatients_def outcome_def failure_def split: prod.splits sum.splits)

lemma getAppointmentSlots_outcome:
  "outcome (getAppointmentSlots pf srv ps c w) =
   outcome (request srv (get_appointment_slots srv) ''GET'' ''/appointment_slots''
              (slot_query pf c ps) None c w)"
  by (simp add: getAppointmentSlots_def outcome_def failure_def split: prod.splits sum.splits)

lemma outcome_request_valid:
  assumes "has_valid_token c (clock w)"
    and "outcome (request srv h m p q b c w) = (r, c', w')" and "p \<noteq> ''/authenticates''"
  shows "c' = c \<and> clock w \<le> clock w' \<and>
         (\<exists>call. sent w' = sent w @ [call] \<and> \<not> is_auth call \<and>
                  Authorization call = Bearer (bearerToken c))"
proof -
  from outcome_eq[OF assms(2)] obtain y where "request srv h m p q b c w = (y, c', w')"
    by blast
  from request_valid[OF assms(1) this] assms(3) show ?thesis
    by (simp add: api_call_def is_auth_def)
qed

lemma outcome_request_invalid:
  assumes "\<not> has_valid_token c (clock w)"
    and "outcome (request srv h m p q b c w) = (r, c', w')" and "p \<noteq> ''/authenticates''"
  shows "(sent w' = sent w @ [auth_call c] \<and> r \<noteq> None) \<or>
         (\<exists>call. sent w' = sent w @ [auth_call c, call] \<and> \<not> is_auth call \<and>
                  Authorization call = Bearer (bearerToken c'))"
proof -
  from outcome_eq[OF assms(2)] obtain y where
    y: "request srv h m p q b c w = (y, c', w')" and r: "r = failure y"
    by blast
  from request_invalid[OF assms(1) y] show ?thesis
  proof
    assume "sent w' = sent w @ [auth_call c] \<and> (\<exists>e. y = Inl e)"
    with r show ?thesis by (auto simp: failure_def)
  next
    assume "sent w' = sent w @ [auth_call c, api_call c' m p q b (bearerToken c')]"
    with assms(3) show ?thesis by (simp add: api_call_def is_auth_def)
  qed
qed

lemma perform_valid:
  assumes "has_valid_token c (clock w)" and "perform pf srv op c w = (r, c', w')"
  shows "c' = c \<and> clock w \<le> clock w' \<and>
         (\<exists>call. sent w' = sent w @ [call] \<and> \<not> is_auth call \<and>
                  Authorization call = Bearer (bearerToken c))"
proof (cases op)
  case (OpGetProviders l)
  show ?thesis
    by (rule outcome_request_valid[OF assms(1)
          assms(2)[unfolded OpGetProviders perform_def operation.case getProviders_def]]) simp
next
  case (OpSearchPatients ps)
  show ?thesis
    by (rule outcome_request_valid[OF assms(1)
          assms(2)[unfolded OpSearchPatients perform_def operation.case searchPatients_outcome]]) simp
next
  case (OpCreatePatient p)
  show ?thesis
    by (rule outcome_request_valid[OF assms(1)
          assms(2)[unfolded OpCreatePatient perform_def operation.case createPatient_def]]) simp
next
  case (OpGetAppointmentSlots ps)
  show ?thesis
    by (rule outcome_request_valid[OF assms(1)
          assms(2)[unfolded OpGetAppointmentSlots perform_def operation.case
                     getAppointmentSlots_outcome]]) simp
next
  case (OpCreateAppointment a)
  show ?thesis
    by (rule outcome_request_valid[OF assms(1)
          assms(2)[unfolded OpCreateAppointment perform_def operation.case createAppointment_def]]) simp
qed

lemma perform_invalid:
  assumes "\<not> has_valid_token c (clock w)" and "perform pf srv op c w = (r, c', w')"
  shows "(sent w' = sent w @ [auth_call c] \<and> r \<noteq> None) \<or>
         (\<exists>call. sent w' = sent w @ [auth_call c, call] \<and> \<not> is_auth call \<and>
                  Authorization call = Bearer (bearerToken c'))"
proof (cases op)
  case (OpGetProviders l)
  show ?thesis
    by (rule outcome_request_invalid[OF assms(1)
          assms(2)[unfolded OpGetProviders perform_def operation.case getProviders_def]]) simp
next
  case (OpSearchPatients ps)
  show ?thesis
    by (rule outcome_request_invalid[OF assms(1)
          assms(2)[unfolded OpSearchPatients perform_def operation.case searchPatients_outcome]]) simp
next
  case (OpCreatePatient p)
  show ?thesis
    by (rule outcome_request_invalid[OF assms(1)
          assms(2)[unfolded OpCreatePatient perform_def operation.case createPatient_def]]) simp
next
  case (OpGetAppointmentSlots ps)
  show ?thesis
    by (rule outcome_request_invalid[OF assms(1)
          assms(2)[unfolded OpGetAppointmentSlots perform_def operation.case
                     getAppointmentSlots_outcome]]) simp
next
  case (OpCreateAppointment a)
  show ?thesis
    by (rule outcome_request_invalid[OF assms(1)
          assms(2)[unfolded OpCreateAppointment perform_def operation.case createAppointment_def]]) simp
qed

lemma run_ops_Cons:
  assumes "run_ops pf srv ((d, op) # ops) c w = (ts, c', w')"
  obtains r c1 w1 ts2 where "perform pf srv op c (idle d w) = (r, c1, w1)"
    and "run_ops pf srv ops c1 w1 = (ts2, c', w')" and "ts = clock (idle d w) # ts2"
proof -
  obtain r c1 w1 where p: "perform pf srv op c (idle d w) = (r, c1, w1)"
    by (cases "perform pf srv op c (idle d w)") auto
  obtain ts2 c2 w2 where r: "run_ops pf srv ops c1 w1 = (ts2, c2, w2)"
    by (cases "run_ops pf srv ops c1 w1") auto
  from assms have "ts = clock (idle d w) # ts2 \<and> c' = c2 \<and> w' = w2"
    by (simp add: p r)
  with p r that show thesis by blast
qed

lemma run_ops_valid:
  assumes "truthy_str (bearerToken c)" and "tokenExpiry c = Some e"
    and "run_ops pf srv ops c w = (ts, c', w')" and "\<forall>t\<in>set ts. t < e"
  shows "c' = c \<and>
         (\<exists>new. sent w' = sent w @ new \<and> length new = length ops \<and>
            (\<forall>call\<in>set new. \<not> is_auth call \<and> Authorization call = Bearer (bearerToken c)))"
  using assms(3,4)
proof (induction ops arbitrary: w ts)
  case Nil
  then show ?case by simp
next
  case (Cons x ops)
  obtain d op where x: "x = (d, op)" by (cases x)
  from Cons.prems(1)[unfolded x] obtain r c1 w1 ts2 where
    p: "perform pf srv op c (idle d w) = (r, c1, w1)"
    and r: "run_ops pf srv ops c1 w1 = (ts2, c', w')" and ts: "ts = clock (idle d w) # ts2"
    by (rule run_ops_Cons)
  from ts Cons.prems(2) have lt: "clock (idle d w) < e" and rest: "\<forall>t\<in>set ts2. t < e"
    by simp_all
  from lt assms(1,2) have v: "has_valid_token c (clock (idle d w))"
    by (simp add: has_valid_token_def)
  from perform_valid[OF v p] obtain call where
    c1: "c1 = c" and s1: "sent w1 = sent (idle d w) @ [call]"
    and call: "\<not> is_auth call" "Authorization call = Bearer (bearerToken c)"
    by blast
  from Cons.IH[OF r[unfolded c1] rest] obtain new where
    n: "c' = c" "sent w' = sent w1 @ new" "length new = length ops"
    "\<forall>call\<in>set new. \<not> is_auth call \<and> Authorization call = Bearer (bearerToken c)"
    by blast
  have "sent w' = sent w @ (call # new)"
    using n(2) s1 by (simp add: idle_def)
  moreover have "length (call # new) = length (x # ops)"
    using n(3) by simp
  moreover have "\<forall>k\<in>set (call # new). \<not> is_auth k \<and> Authorization k = Bearer (bearerToken c)"
    using n(4) call by simp
  ultimately show ?case using n(1) by blast
qed

lemma authenticate_reply:
  assumes "\<not> has_valid_token c (clock w)"
    and "post_authenticates srv (auth_call c) (remote w) = (d, reply, st)"
  shows "authenticate srv c w =
           (case reply of
              NoReply \<Rightarrow> (Inl FetchRejected, c, w\<lparr>clock := clock w + int d, remote := st, sent := sent w @ [auth_call c]\<rparr>)
            | NotOk status errorText \<Rightarrow>
                (Inl (AuthenticationFailed status errorText), c, w\<lparr>clock := clock w + int d, remote := st, sent := sent w @ [auth_call c]\<rparr>)
            | NotJson \<Rightarrow> (Inl JsonRejected, c, w\<lparr>clock := clock w + int d, remote := st, sent := sent w @ [auth_call c]\<rparr>)
            | OkJson j \<Rightarrow>
                (Inr (if truthy_str (data_token j) then data_token j else top_token j),
                 c\<lparr>bearerToken :=
                      (if truthy_str (data_token j) then data_token j else top_token j),
                    tokenExpiry := Some (clock w + int d + 55 * 60 * 1000)\<rparr>,
                 w\<lparr>clock := clock w + int d, remote := st, sent := sent w @ [auth_call c]\<rparr>))"
  using assms
  by (simp add: authenticate_def fetch_def Let_def split: reply.splits)

lemma outcome_request_refresh:
  assumes "\<not> has_valid_token c (clock w)"
    and "post_authenticates srv (auth_call c) (remote w) = (d, reply, st)"
    and "outcome (request srv h m p q b c w) = (r, c', w')" and "p \<noteq> ''/authenticates''"
  shows "case reply of
           NoReply \<Rightarrow> new_calls w w' = [auth_call c] \<and> r = Some FetchRejected \<and> c' = c
         | NotOk status errorText \<Rightarrow>
             new_calls w w' = [auth_call c] \<and> r = Some (AuthenticationFailed status errorText) \<and>
             c' = c
         | NotJson \<Rightarrow> new_calls w w' = [auth_call c] \<and> r = Some JsonRejected \<and> c' = c
         | OkJson j \<Rightarrow>
             (\<exists>call. new_calls w w' = [auth_call c, call] \<and> \<not> is_auth call \<and>
                Authorization call =
                  Bearer (if truthy_str (data_token j) then data_token j
                          else top_token j)) \<and>
             c' = c\<lparr>bearerToken :=
                       (if truthy_str (data_token j) then data_token j else top_token j),
                     tokenExpiry := Some (clock w + int d + 55 * 60 * 1000)\<rparr>"
proof -
  from outcome_eq[OF assms(3)] obtain y where
    y: "request srv h m p q b c w = (y, c', w')" and r: "r = failure y"
    by blast
  note a = authenticate_reply[OF assms(1,2)]
  show ?thesis
  proof (cases reply)
    case NoReply
    with a y r show ?thesis
      by (auto simp: request_def failure_def new_calls_def)
  next
    case (NotOk status errorText)
    with a y r show ?thesis
      by (auto simp: request_def failure_def new_calls_def)
  next
    case NotJson
    with a y r show ?thesis
      by (auto simp: request_def failure_def new_calls_def)
  next
    case (OkJson j)
    let ?tok = "if truthy_str (data_token j) then data_token j else top_token j"
    let ?c = "c\<lparr>bearerToken := ?tok, tokenExpiry := Some (clock w + int d + 55 * 60 * 1000)\<rparr>"
    let ?w = "w\<lparr>clock := clock w + int d, remote := st, sent := sent w @ [auth_call c]\<rparr>"
    from a OkJson have au: "authenticate srv c w = (Inr ?tok, ?c, ?w)" by simp
    obtain rf wf where f: "fetch h (api_call ?c m p q b ?tok) ?w = (rf, wf)"
      by (cases "fetch h (api_call ?c m p q b ?tok) ?w") auto
    from y au f have e: "c' = ?c" "w' = wf"
      by (auto simp: request_def split: reply.splits)
    from fetch_sent[OF f] have "sent wf = sent w @ [auth_call c, api_call ?c m p q b ?tok]"
      by simp
    with e have n: "new_calls w w' = [auth_call c, api_call ?c m p q b ?tok]"
      by (simp add: new_calls_def)
    have "\<not> is_auth (api_call ?c m p q b ?tok)"
      "Authorization (api_call ?c m p q b ?tok) = Bearer ?tok"
      using assms(4) by (simp_all add: is_auth_def api_call_def)
    with n have "\<exists>call. new_calls w w' = [auth_call c, call] \<and> \<not> is_auth call \<and>
                   Authorization call = Bearer ?tok"
      by (intro exI[of _ "api_call ?c m p q b ?tok"]) simp
    with e(1) OkJson show ?thesis by simp
  qed
qed

lemma perform_refresh:
  assumes "\<not> has_valid_token c (clock w)"
    and "post_authenticates srv (auth_call c) (remote w) = (d, reply, st)"
    and "perform pf srv op c w = (r, c', w')"
  shows "case reply of
           NoReply \<Rightarrow> new_calls w w' = [auth_call c] \<and> r = Some FetchRejected \<and> c' = c
         | NotOk status errorText \<Rightarrow>
             new_calls w w' = [auth_call c] \<and> r = Some (AuthenticationFailed status errorText) \<and>
             c' = c
         | NotJson \<Rightarrow> new_calls w w' = [auth_call c] \<and> r = Some JsonRejected \<and> c' = c
         | OkJson j \<Rightarrow>
             (\<exists>call. new_calls w w' = [auth_call c, call] \<and> \<not> is_auth call \<and>
                Authorization call =
                  Bearer (if truthy_str (data_token j) then data_token j
                          else top_token j)) \<and>
             c' = c\<lparr>bearerToken :=
                       (if truthy_str (data_token j) then data_token j else top_token j),
                     tokenExpiry := Some (clock w + int d + 55 * 60 * 1000)\<rparr>"
proof (cases op)
  case (OpGetProviders l)
  show ?thesis
    by (rule outcome_request_refresh[OF assms(1,2)
          assms(3)[unfolded OpGetProviders perform_def operation.case getProviders_def]]) simp
next
  case (OpSearchPatients ps)
  show ?thesis
    by (rule outcome_request_refresh[OF assms(1,2)
          assms(3)[unfolded OpSearchPatients perform_def operation.case searchPatients_outcome]])
       simp
next
  case (OpCreatePatient p)
  show ?thesis
    by (rule outcome_request_refresh[OF assms(1,2)
          assms(3)[unfolded OpCreatePatient perform_def operation.case createPatient_def]]) simp
next
  case (OpGetAppointmentSlots ps)
  show ?thesis
    by (rule outcome_request_refresh[OF assms(1,2)
          assms(3)[unfolded OpGetAppointmentSlots perform_def operation.case
                     getAppointmentSlots_outcome]]) simp
next
  case (OpCreateAppointment a)
  show ?thesis
    by (rule outcome_request_refresh[OF assms(1,2)
          assms(3)[unfolded OpCreateAppointment perform_def operation.case
                     createAppointment_def]]) simp
qed

lemma refresh_then_reuse:
  assumes "\<not> has_valid_token c (clock (idle d0 w))"
    and "post_authenticates srv (auth_call c) (remote w) = (d, OkJson j, st)"
    and "truthy_str (if truthy_str (data_token j) then data_token j else top_token j)"
    and "run_ops pf srv ((d0, op) # ops) c w = (ts, c', w')"
    and "\<forall>t\<in>set (tl ts). t < clock w + int d0 + int d + 55 * 60 * 1000"
  shows "filter is_auth (new_calls w w') = [auth_call c] \<and>
         length (new_calls w w') = Suc (Suc (length ops)) \<and>
         bearerToken c' = (if truthy_str (data_token j) then data_token j
                           else top_token j)"
proof -
  let ?tok = "if truthy_str (data_token j) then data_token j else top_token j"
  from assms(4) obtain r c1 w1 ts2 where
    p: "perform pf srv op c (idle d0 w) = (r, c1, w1)"
    and rest: "run_ops pf srv ops c1 w1 = (ts2, c', w')" and ts: "ts = clock (idle d0 w) # ts2"
    by (rule run_ops_Cons)
  have rem: "post_authenticates srv (auth_call c) (remote (idle d0 w)) = (d, OkJson j, st)"
    using assms(2) by (simp add: idle_def)
  from perform_refresh[OF assms(1) rem p] obtain call where
    n1: "new_calls (idle d0 w) w1 = [auth_call c, call]" and na: "\<not> is_auth call"
    and c1: "c1 = c\<lparr>bearerToken := ?tok,
                     tokenExpiry := Some (clock (idle d0 w) + int d + 55 * 60 * 1000)\<rparr>"
    by auto
  from c1 assms(3) have tr: "truthy_str (bearerToken c1)" by simp
  from c1 have ex: "tokenExpiry c1 = Some (clock w + int d0 + int d + 55 * 60 * 1000)"
    by (simp add: idle_def)
  from ts assms(5) have lt: "\<forall>t\<in>set ts2. t < clock w + int d0 + int d + 55 * 60 * 1000"
    by simp
  from run_ops_valid[OF tr ex rest lt] obtain new where
    n2: "c' = c1" "sent w' = sent w1 @ new" "length new = length ops"
    "\<forall>k\<in>set new. \<not> is_auth k \<and> Authorization k = Bearer (bearerToken c1)"
    by blast
  from p have "\<exists>x. sent w1 = sent (idle d0 w) @ x"
  proof (cases "has_valid_token c (clock (idle d0 w))")
    case True
    with assms(1) show ?thesis by simp
  next
    case False
    from perform_invalid[OF False p] show ?thesis
      by (elim disjE conjE exE) (rule exI, assumption)+
  qed
  then obtain x where x: "sent w1 = sent (idle d0 w) @ x" by blast
  with n1 have "x = [auth_call c, call]" by (simp add: new_calls_def)
  with x n2(2) have all: "new_calls w w' = auth_call c # call # new"
    by (simp add: new_calls_def idle_def)
  have "is_auth (auth_call c)" by (simp add: is_auth_def auth_call_def)
  moreover from n2(4) have "filter is_auth new = []" by (simp add: filter_empty_conv)
  ultimately have "filter is_auth (new_calls w w') = [auth_call c]"
    using all na by simp
  moreover from all n2(3) have "length (new_calls w w') = Suc (Suc (length ops))" by simp
  moreover from n2(1) c1 have "bearerToken c' = ?tok" by simp
  ultimately show ?thesis by simp
qed

text \<open>
  C1, as amended. While the client holds a non-empty bearer token and every operation
  starts strictly before the cached expiry, any sequence of operations leaves the cache
  untouched, sends one call per operation, each with the cached token, and sends no
  call to \<open>/authenticates\<close>. An operation that starts when the token is missing, empty
  or at or past its expiry sends exactly one call to \<open>/authenticates\<close>, first. When
  that call is answered with a body, the operation then sends its own request with the
  token of the body (\<open>data.token\<close>, or else \<open>token\<close>) and the client caches that token
  with an expiry 55 minutes after the answer; when it is refused or fails, the
  operation fails with that error, sends nothing more and leaves the cache as it was.
  After such a refresh with a non-empty token, the operations that start before the
  new expiry send no further call to \<open>/authenticates\<close>.
\<close>

theorem token_reused_until_expiry:
  "(truthy_str (bearerToken c) \<and> tokenExpiry c = Some e \<and>
    run_ops pf srv ops c w = (ts, c', w') \<and> (\<forall>t\<in>set ts. t < e) \<longrightarrow>
      c' = c \<and> length (new_calls w w') = length ops \<and>
      filter is_auth (new_calls w w') = [] \<and>
      (\<forall>call\<in>set (new_calls w w'). Authorization call = Bearer (bearerToken c)))
   \<and> (tokenExpiry c = Some e \<and> e \<le> clock v \<longrightarrow> \<not> has_valid_token c (clock v))
   \<and> (\<not> has_valid_token c (clock v) \<and>
      post_authenticates srv (auth_call c) (remote v) = (d, reply, st) \<and>
      perform pf srv op c v = (r, c1, v1) \<longrightarrow>
        (case reply of
           NoReply \<Rightarrow> new_calls v v1 = [auth_call c] \<and> r = Some FetchRejected \<and> c1 = c
         | NotOk status errorText \<Rightarrow>
             new_calls v v1 = [auth_call c] \<and> r = Some (AuthenticationFailed status errorText) \<and>
             c1 = c
         | NotJson \<Rightarrow> new_calls v v1 = [auth_call c] \<and> r = Some JsonRejected \<and> c1 = c
         | OkJson j \<Rightarrow>
             (\<exists>call. new_calls v v1 = [auth_call c, call] \<and> \<not> is_auth call \<and>
                Authorization call =
                  Bearer (if truthy_str (data_token j) then data_token j
                          else top_token j)) \<and>
             c1 = c\<lparr>bearerToken :=
                       (if truthy_str (data_token j) then data_token j else top_token j),
                     tokenExpiry := Some (clock v + int d + 55 * 60 * 1000)\<rparr>))
   \<and> (\<not> has_valid_token c (clock (idle d0 u)) \<and>
      post_authenticates srv (auth_call c) (remote u) = (d, OkJson j, st) \<and>
      truthy_str (if truthy_str (data_token j) then data_token j else top_token j) \<and>
      run_ops pf srv ((d0, op) # ops) c u = (us, c2, u2) \<and>
      (\<forall>t\<in>set (tl us). t < clock u + int d0 + int d + 55 * 60 * 1000) \<longrightarrow>
        filter is_auth (new_calls u u2) = [auth_call c] \<and>
        length (new_calls u u2) = Suc (Suc (length ops)) \<and>
        bearerToken c2 = (if truthy_str (data_token j) then data_token j
                          else top_token j))"
proof (intro conjI impI)
  assume a: "truthy_str (bearerToken c) \<and> tokenExpiry c = Some e \<and>
    run_ops pf srv ops c w = (ts, c', w') \<and> (\<forall>t\<in>set ts. t < e)"
  then have a1: "truthy_str (bearerToken c)" and a2: "tokenExpiry c = Some e"
    and a3: "run_ops pf srv ops c w = (ts, c', w')" and a4: "\<forall>t\<in>set ts. t < e"
    by simp_all
  from run_ops_valid[OF a1 a2 a3 a4] obtain new where
    n: "c' = c" "sent w' = sent w @ new" "length new = length ops"
    "\<forall>call\<in>set new. \<not> is_auth call \<and> Authorization call = Bearer (bearerToken c)"
    by blast
  from n(2) have nc: "new_calls w w' = new" by (simp add: new_calls_def)
  show "c' = c" by (rule n(1))
  show "length (new_calls w w') = length ops" using nc n(3) by simp
  show "filter is_auth (new_calls w w') = []" using nc n(4) by (simp add: filter_empty_conv)
  show "\<forall>call\<in>set (new_calls w w'). Authorization call = Bearer (bearerToken c)"
    using nc n(4) by simp
next
  assume "tokenExpiry c = Some e \<and> e \<le> clock v"
  then show "\<not> has_valid_token c (clock v)"
    by (simp add: has_valid_token_def)
next
  assume a: "\<not> has_valid_token c (clock v) \<and>
      post_authenticates srv (auth_call c) (remote v) = (d, reply, st) \<and>
      perform pf srv op c v = (r, c1, v1)"
  then have a1: "\<not> has_valid_token c (clock v)"
    and a2: "post_authenticates srv (auth_call c) (remote v) = (d, reply, st)"
    and a3: "perform pf srv op c v = (r, c1, v1)"
    by simp_all
  show "case reply of
           NoReply \<Rightarrow> new_calls v v1 = [auth_call c] \<and> r = Some FetchRejected \<and> c1 = c
         | NotOk status errorText \<Rightarrow>
             new_calls v v1 = [auth_call c] \<and> r = Some (AuthenticationFailed status errorText) \<and>
             c1 = c
         | NotJson \<Rightarrow> new_calls v v1 = [auth_call c] \<and> r = Some JsonRejected \<and> c1 = c
         | OkJson j \<Rightarrow>
             (\<exists>call. new_calls v v1 = [auth_call c, call] \<and> \<not> is_auth call \<and>
                Authorization call =
                  Bearer (if truthy_str (data_token j) then data_token j
                          else top_token j)) \<and>
             c1 = c\<lparr>bearerToken :=
                       (if truthy_str (data_token j) then data_token j else top_token j),
                     tokenExpiry := Some (clock v + int d + 55 * 60 * 1000)\<rparr>"
    by (rule perform_refresh[OF a1 a2 a3])
next
  assume a: "\<not> has_valid_token c (clock (idle d0 u)) \<and>
      post_authenticates srv (auth_call c) (remote u) = (d, OkJson j, st) \<and>
      truthy_str (if truthy_str (data_token j) then data_token j else top_token j) \<and>
      run_ops pf srv ((d0, op) # ops) c u = (us, c2, u2) \<and>
      (\<forall>t\<in>set (tl us). t < clock u + int d0 + int d + 55 * 60 * 1000)"
  then have a1: "\<not> has_valid_token c (clock (idle d0 u))"
    and a2: "post_authenticates srv (auth_call c) (remote u) = (d, OkJson j, st)"
    and a3: "truthy_str (if truthy_str (data_token j) then data_token j
                        else top_token j)"
    and a4: "run_ops pf srv ((d0, op) # ops) c u = (us, c2, u2)"
    and a5: "\<forall>t\<in>set (tl us). t < clock u + int d0 + int d + 55 * 60 * 1000"
    by simp_all
  note k = refresh_then_reuse[OF a1 a2 a3 a4 a5]
  from k show "filter is_auth (new_calls u u2) = [auth_call c]" by simp
  from k show "length (new_calls u u2) = Suc (Suc (length ops))" by simp
  from k show "bearerToken c2 = (if truthy_str (data_token j) then data_token j
                          else top_token j)" by simp
qed

lemmas client_defs = authenticate_def request_def fetch_def has_valid_token_def truthy_str_def
  truthy_id_def api_call_def auth_call_def getProviders_def searchPatients_def search_query_def
  unwrap_listing_def createPatient_def createAppointment_def idle_def new_calls_def is_auth_def
  outcome_def failure_def perform_def Let_def

lemmas demo_defs = demo_server_def demo_client_def demo_world_def demo_platform_def
  new_NexHealthClient_def answering_def refusing_def ann_def dr_ray_def visit_def
  demo_search_def demo_slot_params_def

theorem token_reused_until_expiry_witness:
  "truthy_str (bearerToken demo_client) \<and> tokenExpiry demo_client = Some 1704070500000 \<and>
   list_all (\<lambda>t. t < 1704070500000)
     (fst (run_ops demo_platform demo_server demo_ops demo_client demo_world)) \<and>
   length (new_calls demo_world
             (snd (snd (run_ops demo_platform demo_server demo_ops demo_client demo_world)))) = 2 \<and>
   filter is_auth
     (new_calls demo_world
        (snd (snd (run_ops demo_platform demo_server demo_ops demo_client demo_world)))) = [] \<and>
   1704070500000 \<le> clock (idle 3300000 demo_world) \<and>
   \<not> has_valid_token demo_client (clock (idle 3300000 demo_world)) \<and>
   post_authenticates demo_server (auth_call demo_client) (remote (idle 3300000 demo_world)) =
     (120, OkJson \<lparr>data_token = Some ''secret'', top_token = None\<rparr>, 1) \<and>
   length (new_calls (idle 3300000 demo_world)
             (snd (snd (perform demo_platform demo_server (OpGetProviders (Num 7)) demo_client
                          (idle 3300000 demo_world))))) = 2 \<and>
   hd (new_calls (idle 3300000 demo_world)
         (snd (snd (perform demo_platform demo_server (OpGetProviders (Num 7)) demo_client
                      (idle 3300000 demo_world))))) = auth_call demo_client \<and>
   fst (snd (perform demo_platform demo_server (OpGetProviders (Num 7)) demo_client
               (idle 3300000 demo_world))) =
     demo_client\<lparr>bearerToken := Some ''secret'', tokenExpiry := Some 1704073800120\<rparr> \<and>
   list_all (\<lambda>t. t < 1704073800120)
     (tl (fst (run_ops demo_platform demo_server ((3300000, OpGetProviders (Num 7)) # demo_ops)
                 demo_client demo_world))) \<and>
   filter is_auth
     (new_calls demo_world
        (snd (snd (run_ops demo_platform demo_server
                     ((3300000, OpGetProviders (Num 7)) # demo_ops) demo_client demo_world)))) =
     [auth_call demo_client] \<and>
   length (new_calls demo_world
             (snd (snd (run_ops demo_platform demo_server
                          ((3300000, OpGetProviders (Num 7)) # demo_ops) demo_client
                          demo_world)))) = 4"
proof -
  let ?run = "run_ops demo_platform demo_server demo_ops demo_client demo_world"
  let ?late = "idle 3300000 demo_world"
  let ?step = "perform demo_platform demo_server (OpGetProviders (Num 7)) demo_client ?late"
  let ?body = "\<lparr>data_token = Some ''secret'', top_token = None\<rparr>"
  let ?run2 = "run_ops demo_platform demo_server ((3300000, OpGetProviders (Num 7)) # demo_ops)
                 demo_client demo_world"
  have h1: "truthy_str (bearerToken demo_client)"
    by (simp add: demo_defs truthy_str_def)
  have h2: "tokenExpiry demo_client = Some 1704070500000"
    by (simp add: demo_defs)
  have h3: "\<forall>t\<in>set (fst ?run). t < 1704070500000"
    by (simp add: client_defs demo_defs demo_ops_def)
  have h4: "1704070500000 \<le> clock ?late"
    by (simp add: demo_defs idle_def)
  have h5: "post_authenticates demo_server (auth_call demo_client) (remote ?late) =
              (120, OkJson ?body, 1)"
    by (simp add: demo_defs idle_def)
  have h6: "truthy_str (if truthy_str (data_token ?body) then data_token ?body
                        else top_token ?body)"
    by (simp add: truthy_str_def)
  have h7: "post_authenticates demo_server (auth_call demo_client) (remote demo_world) =
              (120, OkJson ?body, 1)"
    by (simp add: demo_defs)
  have h8: "\<forall>t\<in>set (tl (fst ?run2)).
              t < clock demo_world + int 3300000 + int 120 + 55 * 60 * 1000"
    by (simp add: client_defs demo_defs demo_ops_def)
  note use = token_reused_until_expiry[where c = demo_client and e = 1704070500000
      and pf = demo_platform and srv = demo_server and ops = demo_ops and w = demo_world
      and ts = "fst ?run" and c' = "fst (snd ?run)" and w' = "snd (snd ?run)"
      and v = ?late and d = 120 and reply = "OkJson ?body" and st = 1
      and op = "OpGetProviders (Num 7)"
      and r = "fst ?step" and ?c1.0 = "fst (snd ?step)" and ?v1.0 = "snd (snd ?step)"
      and ?d0.0 = 3300000 and u = demo_world and j = ?body
      and us = "fst ?run2" and ?c2.0 = "fst (snd ?run2)" and ?u2.0 = "snd (snd ?run2)"]
  have a1: "length (new_calls demo_world (snd (snd ?run))) = length demo_ops \<and>
            filter is_auth (new_calls demo_world (snd (snd ?run))) = []"
    using use[THEN conjunct1] h1 h2 h3 by simp
  have a2: "\<not> has_valid_token demo_client (clock ?late)"
    using use[THEN conjunct2, THEN conjunct1] h2 h4 by simp
  have a2': "\<not> has_valid_token demo_client (clock (idle 3300000 demo_world))"
    by (rule a2)
  have a3: "(\<exists>call. new_calls ?late (snd (snd ?step)) = [auth_call demo_client, call]) \<and>
            fst (snd ?step) =
              demo_client\<lparr>bearerToken := Some ''secret'',
                           tokenExpiry := Some (clock ?late + int 120 + 55 * 60 * 1000)\<rparr>"
    using use[THEN conjunct2, THEN conjunct2, THEN conjunct1] a2 h5
    by (auto simp: truthy_str_def)
  have a4: "filter is_auth (new_calls demo_world (snd (snd ?run2))) = [auth_call demo_client] \<and>
            length (new_calls demo_world (snd (snd ?run2))) = Suc (Suc (length demo_ops))"
    using use[THEN conjunct2, THEN conjunct2, THEN conjunct2] a2' h7 h6 h8 by simp
  have l: "length demo_ops = 2" by (simp add: demo_ops_def)
  have e: "clock ?late + int 120 + 55 * 60 * 1000 = 1704073800120"
    by (simp add: demo_defs idle_def)
  from a3 have b3: "length (new_calls ?late (snd (snd ?step))) = 2"
    "hd (new_calls ?late (snd (snd ?step))) = auth_call demo_client"
    by auto
  from h8 have h8': "list_all (\<lambda>t. t < 1704073800120) (tl (fst ?run2))"
    by (simp add: list_all_iff demo_defs)
  from h3 have h3': "list_all (\<lambda>t. t < 1704070500000) (fst ?run)"
    by (simp add: list_all_iff)
  from h1 h2 h3' a1 l h4 a2 h5 b3 a3 e h8' a4 show ?thesis
    by simp
qed

text \<open>
  C1 as stated fails for a cached token that is the empty string. A server answers the
  first authentication with the empty token; the client caches it with an expiry 55
  minutes ahead; the next operation starts one second later, well before that expiry,
  and still sends a call to \<open>/authenticates\<close>.
\<close>

theorem empty_token_is_not_reused:
  "bearerToken
     (fst (snd (perform demo_platform blank_token_server (OpGetProviders (Num 7))
                  (new_NexHealthClient ''key'' ''smile'' None) demo_world))) = Some '''' \<and>
   tokenExpiry
     (fst (snd (perform demo_platform blank_token_server (OpGetProviders (Num 7))
                  (new_NexHealthClient ''key'' ''smile'' None) demo_world))) =
     Some 1704070500120 \<and>
   fst (run_ops demo_platform blank_token_server
          [(0, OpGetProviders (Num 7)), (1000, OpGetProviders (Num 7))]
          (new_NexHealthClient ''key'' ''smile'' None) demo_world) =
     [1704067200000, 1704067201200] \<and>
   map path
     (new_calls demo_world
        (snd (snd (run_ops demo_platform blank_token_server
                     [(0, OpGetProviders (Num 7)), (1000, OpGetProviders (Num 7))]
                     (new_NexHealthClient ''key'' ''smile'' None) demo_world)))) =
     [''/authenticates'', ''/providers'', ''/authenticates'', ''/providers'']"
  by (simp add: client_defs demo_defs blank_token_server_def)

section \<open>Response shapes and the slot query\<close>


lemma request_calls:
  assumes "request srv h m p q b c w = (r, c', w')"
  shows "sent w' = sent w @ [api_call c' m p q b (bearerToken c')] \<or>
         (sent w' = sent w @ [auth_call c] \<and> (\<exists>e. r = Inl e)) \<or>
         sent w' = sent w @ [auth_call c, api_call c' m p q b (bearerToken c')]"
proof (cases "has_valid_token c (clock w)")
  case True
  from request_valid[OF True assms] show ?thesis by simp
next
  case False
  from request_invalid[OF False assms] show ?thesis by blast
qed

lemma request_sends:
  assumes "fst (authenticate srv c w) = Inr tok" and "request srv h m p q b c w = (r, c', w')"
  shows "api_call c' m p q b (bearerToken c') \<in> set (new_calls w w')"
proof (cases "has_valid_token c (clock w)")
  case True
  from request_valid[OF True assms(2)] show ?thesis by (simp add: new_calls_def)
next
  case False
  obtain ra ca wa where a: "authenticate srv c w = (ra, ca, wa)"
    by (cases "authenticate srv c w") auto
  with assms(1) have ra: "ra = Inr tok" by simp
  obtain rf wf where f: "fetch h (api_call ca m p q b tok) wa = (rf, wf)"
    by (cases "fetch h (api_call ca m p q b tok) wa") auto
  from a ra f assms(2) have e: "c' = ca" "w' = wf"
    by (auto simp: request_def split: reply.splits)
  from authenticate_invalid[OF False a] ra have
    "sent wa = sent w @ [auth_call c]" "bearerToken ca = tok"
    by simp_all
  with fetch_sent[OF f] e show ?thesis by (simp add: new_calls_def)
qed

lemma authenticate_other_handlers:
  "authenticate (srv\<lparr>get_patients := h\<rparr>) c w = authenticate srv c w"
  "authenticate (srv\<lparr>get_appointment_slots := k\<rparr>) c w = authenticate srv c w"
  by (simp_all add: authenticate_def)

lemma request_answering:
  "request srv (answering d x) m p q b c w =
     (case authenticate srv c w of
        (Inl e, c', w') \<Rightarrow> (Inl e, c', w')
      | (Inr token, c', w') \<Rightarrow> (Inr x, c', answered d (api_call c' m p q b token) w'))"
  by (simp add: request_def fetch_def answering_def answered_def split: prod.splits sum.splits)

lemma searchPatients_answering:
  "searchPatients (srv\<lparr>get_patients := answering d x\<rparr>) q c w =
     (case authenticate srv c w of
        (Inl e, c', w') \<Rightarrow> (Inl e, c', w')
      | (Inr token, c', w') \<Rightarrow>
          (Inr (unwrap_listing x), c',
           answered d (api_call c' ''GET'' ''/patients'' (search_query c q) None token) w'))"
  by (simp add: searchPatients_def request_answering authenticate_other_handlers
           split: prod.splits sum.splits)

lemma getAppointmentSlots_answering:
  "getAppointmentSlots pf (srv\<lparr>get_appointment_slots := answering d x\<rparr>) q c w =
     (case authenticate srv c w of
        (Inl e, c', w') \<Rightarrow> (Inl e, c', w')
      | (Inr token, c', w') \<Rightarrow>
          (Inr (unwrap_listing x), c',
           answered d (api_call c' ''GET'' ''/appointment_slots'' (slot_query pf c q) None token)
             w'))"
  by (simp add: getAppointmentSlots_def request_answering authenticate_other_handlers
           split: prod.splits sum.splits)

text \<open>
  C5. Whatever the server otherwise does, \<open>searchPatients\<close> gives the same outcome when
  the body's \<open>data\<close> is the bare array of patients and when it is an object holding that
  array under \<open>patients\<close>; \<open>getAppointmentSlots\<close> likewise for \<open>slots\<close>. When
  authentication succeeds the outcome is that sequence, and the empty sequence for a
  wrapped object without the inner field.
\<close>

theorem response_shapes_normalised:
  "searchPatients (srv\<lparr>get_patients := answering d (Bare ps)\<rparr>) q c w =
   searchPatients (srv\<lparr>get_patients := answering d (Wrapped (Some ps))\<rparr>) q c w
   \<and> getAppointmentSlots pf (srv\<lparr>get_appointment_slots := answering d (Bare sl)\<rparr>) sq c w =
     getAppointmentSlots pf (srv\<lparr>get_appointment_slots := answering d (Wrapped (Some sl))\<rparr>) sq c w
   \<and> ((\<exists>tok. fst (authenticate srv c w) = Inr tok) \<longrightarrow>
        fst (searchPatients (srv\<lparr>get_patients := answering d (Bare ps)\<rparr>) q c w) = Inr ps \<and>
        fst (searchPatients (srv\<lparr>get_patients := answering d (Wrapped None)\<rparr>) q c w) = Inr [] \<and>
        fst (getAppointmentSlots pf (srv\<lparr>get_appointment_slots := answering d (Bare sl)\<rparr>) sq c w)
          = Inr sl \<and>
        fst (getAppointmentSlots pf (srv\<lparr>get_appointment_slots := answering d (Wrapped None)\<rparr>)
               sq c w) = Inr [])"
proof (intro conjI impI)
  show "searchPatients (srv\<lparr>get_patients := answering d (Bare ps)\<rparr>) q c w =
        searchPatients (srv\<lparr>get_patients := answering d (Wrapped (Some ps))\<rparr>) q c w"
    by (simp add: searchPatients_answering unwrap_listing_def split: prod.splits sum.splits)
  show "getAppointmentSlots pf (srv\<lparr>get_appointment_slots := answering d (Bare sl)\<rparr>) sq c w =
        getAppointmentSlots pf (srv\<lparr>get_appointment_slots := answering d (Wrapped (Some sl))\<rparr>)
          sq c w"
    by (simp add: getAppointmentSlots_answering unwrap_listing_def split: prod.splits sum.splits)
next
  assume "\<exists>tok. fst (authenticate srv c w) = Inr tok"
  then obtain tok c' w' where a: "authenticate srv c w = (Inr tok, c', w')"
    by (cases "authenticate srv c w") auto
  show "fst (searchPatients (srv\<lparr>get_patients := answering d (Bare ps)\<rparr>) q c w) = Inr ps"
    by (simp add: searchPatients_answering a unwrap_listing_def)
  show "fst (searchPatients (srv\<lparr>get_patients := answering d (Wrapped None)\<rparr>) q c w) = Inr []"
    by (simp add: searchPatients_answering a unwrap_listing_def)
  show "fst (getAppointmentSlots pf (srv\<lparr>get_appointment_slots := answering d (Bare sl)\<rparr>) sq c w)
          = Inr sl"
    by (simp add: getAppointmentSlots_answering a unwrap_listing_def)
  show "fst (getAppointmentSlots pf (srv\<lparr>get_appointment_slots := answering d (Wrapped None)\<rparr>)
               sq c w) = Inr []"
    by (simp add: getAppointmentSlots_answering a unwrap_listing_def)
qed

theorem response_shapes_normalised_witness:
  "fst (authenticate demo_server demo_client demo_world) = Inr (Some ''secret'') \<and>
   fst (searchPatients (demo_server\<lparr>get_patients := answering 90 (Bare [ann])\<rparr>)
          demo_search demo_client demo_world) = Inr [ann] \<and>
   fst (searchPatients (demo_server\<lparr>get_patients := answering 90 (Wrapped None)\<rparr>)
          demo_search demo_client demo_world) = Inr [] \<and>
   searchPatients (demo_server\<lparr>get_patients := answering 90 (Bare [ann])\<rparr>)
     demo_search demo_client demo_world =
   searchPatients (demo_server\<lparr>get_patients := answering 90 (Wrapped (Some [ann]))\<rparr>)
     demo_search demo_client demo_world"
proof -
  have h: "fst (authenticate demo_server demo_client demo_world) = Inr (Some ''secret'')"
    by (simp add: client_defs demo_defs)
  then have ex: "\<exists>tok. fst (authenticate demo_server demo_client demo_world) = Inr tok"
    by blast
  note use = response_shapes_normalised[where srv = demo_server and d = 90 and ps = "[ann]"
      and q = demo_search and c = demo_client and w = demo_world and pf = demo_platform
      and sl = "[]" and sq = demo_slot_params]
  from use ex have
    a: "fst (searchPatients (demo_server\<lparr>get_patients := answering 90 (Bare [ann])\<rparr>)
              demo_search demo_client demo_world) = Inr [ann]"
    and b: "fst (searchPatients (demo_server\<lparr>get_patients := answering 90 (Wrapped None)\<rparr>)
              demo_search demo_client demo_world) = Inr []"
    and c: "searchPatients (demo_server\<lparr>get_patients := answering 90 (Bare [ann])\<rparr>)
              demo_search demo_client demo_world =
            searchPatients (demo_server\<lparr>get_patients := answering 90 (Wrapped (Some [ann]))\<rparr>)
              demo_search demo_client demo_world"
    by blast+
  show ?thesis by (intro conjI) (rule h a b c)+
qed

section \<open>The day count in double arithmetic\<close>

lemma round_half_even_cases:
  "round_half_even n d = n div d \<and> 2 * (n mod d) \<le> d \<or>
   round_half_even n d = n div d + 1 \<and> d \<le> 2 * (n mod d)"
  by (simp add: round_half_even_def Let_def)

lemma round_half_even_exact:
  "0 < d \<Longrightarrow> n mod d = 0 \<Longrightarrow> round_half_even n d = n div d"
  by (simp add: round_half_even_def Let_def)

lemma normalise_reaches:
  "0 < n \<Longrightarrow> 0 < d \<Longrightarrow> 2 ^ 52 * d \<le> n * 2 ^ normalise n d"
proof (induction n d rule: normalise.induct)
  case (1 n d)
  show ?case
  proof (cases "2 ^ 52 * d \<le> n")
    case True
    then show ?thesis by (simp add: normalise.simps[of n d])
  next
    case False
    with 1 have "2 ^ 52 * d \<le> (2 * n) * 2 ^ normalise (2 * n) d" by simp
    with False 1(2,3) show ?thesis by (simp add: normalise.simps[of n d] mult.assoc)
  qed
qed

text \<open>
  When the scaled divisor \<open>2 * P\<close> exceeds \<open>d\<close>, rounding \<open>n * P / d\<close> to an integer stays
  strictly between the scaled neighbours of an inexact quotient \<open>n / d\<close>.
\<close>

lemma scaled_exact:
  assumes "0 < d" and "n mod d = 0"
  shows "round_half_even (n * P) d = (n div d) * P"
proof -
  from assms(2) have n: "n = (n div d) * d" by (simp add: mod_eq_0_iff_dvd)
  then have np: "n * P = ((n div d) * P) * d" by (metis mult.assoc mult.commute)
  then have "(n * P) mod d = 0" by (metis mod_mult_self2_is_0)
  moreover from np assms(1) have "(n * P) div d = (n div d) * P"
    by (metis nonzero_mult_div_cancel_right less_irrefl)
  ultimately show ?thesis using assms(1) by (simp add: round_half_even_exact)
qed

lemma scaled_inexact:
  assumes d: "0 < d" and P: "0 < P" and big: "d < 2 * P" and n: "0 \<le> n" and r: "n mod d \<noteq> 0"
  shows "(n div d) * P < round_half_even (n * P) d \<and>
         round_half_even (n * P) d < (n div d + 1) * P"
proof -
  define Q where "Q = n div d"
  define R where "R = n mod d"
  define t where "t = (R * P) div d"
  define u where "u = (R * P) mod d"
  have nQR: "n = Q * d + R" by (simp add: Q_def R_def)
  from d have "0 \<le> n mod d" "n mod d < d" by simp_all
  with r have R1: "1 \<le> R" "R \<le> d - 1" unfolding R_def by linarith+
  have RP: "R * P = t * d + u" by (simp add: t_def u_def)
  from d have u: "0 \<le> u" "u < d" by (simp_all add: u_def)
  from R1 P have "0 \<le> R * P" by simp
  with d have t0: "0 \<le> t" by (simp add: t_def pos_imp_zdiv_nonneg_iff)
  have "n * P = (Q * P) * d + R * P" by (simp add: nQR algebra_simps)
  also have "\<dots> = (Q * P) * d + (t * d + u)" by (simp only: RP)
  also have "\<dots> = (Q * P + t) * d + u" by (simp add: algebra_simps)
  finally have np: "n * P = (Q * P + t) * d + u" .
  from np u d have dv: "(n * P) div d = Q * P + t"
    by (metis int_div_pos_eq mult.commute)
  from np u d have md: "(n * P) mod d = u"
    by (metis int_mod_pos_eq mult.commute)
  from R1(1) P have lowRP: "P \<le> R * P" by (simp add: mult_le_cancel_right1)
  from R1(2) P have "R * P \<le> (d - 1) * P" by (simp add: mult_right_mono)
  then have "t * d + u \<le> (d - 1) * P" by (simp only: RP)
  moreover have "(d - 1) * P = d * P - P" by (simp add: algebra_simps)
  ultimately have upRP: "t * d + u \<le> d * P - P" by simp
  have tP: "t \<le> P - 1"
  proof (rule ccontr)
    assume "\<not> t \<le> P - 1"
    then have "P \<le> t" by simp
    with d have "P * d \<le> t * d" by (simp add: mult_right_mono)
    with upRP u(1) P show False by (simp add: algebra_simps)
  qed
  from round_half_even_cases[of "n * P" d]
  show ?thesis
  proof (elim disjE conjE)
    assume e: "round_half_even (n * P) d = n * P div d" and h: "2 * (n * P mod d) \<le> d"
    have "1 \<le> t"
    proof (rule ccontr)
      assume "\<not> 1 \<le> t"
      with t0 have "t = 0" by simp
      with RP lowRP have "P \<le> u" by simp
      with h md big show False by simp
    qed
    with e dv tP show ?thesis by (simp add: Q_def algebra_simps)
  next
    assume e: "round_half_even (n * P) d = n * P div d + 1" and h: "d \<le> 2 * (n * P mod d)"
    have "t \<le> P - 2"
    proof (rule ccontr)
      assume "\<not> t \<le> P - 2"
      with tP have "t = P - 1" by simp
      with upRP have "u \<le> d - P" by (simp add: algebra_simps)
      with h md big show False by simp
    qed
    with e dv t0 show ?thesis by (simp add: Q_def algebra_simps)
  qed
qed

lemma normalise_scale:
  assumes "0 < n" and "0 < d" and "d < 2 ^ 27" and "n < 2 ^ 27 * d"
  shows "d < 2 * 2 ^ normalise n d"
proof -
  let ?sh = "normalise n d"
  from normalise_reaches[OF assms(1,2)] have "2 ^ 52 * d \<le> n * 2 ^ ?sh" .
  also from assms(4) have "n * 2 ^ ?sh < (2 ^ 27 * d) * 2 ^ ?sh"
    by (simp add: mult_strict_right_mono)
  finally have "2 ^ 52 * d < (2 ^ 27 * 2 ^ ?sh) * d" by (simp add: algebra_simps)
  with assms(2) have "(2::int) ^ 52 < 2 ^ 27 * 2 ^ ?sh" by (simp add: mult_less_cancel_right)
  then have "(2::int) ^ 27 * 2 ^ 25 < 2 ^ 27 * 2 ^ ?sh" by simp
  then have "(2::int) ^ 25 < 2 ^ ?sh" by simp
  then have "25 < ?sh" by (simp only: power_strict_increasing_iff one_less_numeral_iff semiring_norm)
  then have "26 \<le> ?sh" by simp
  then have "(2::int) ^ 26 \<le> 2 ^ ?sh" by (intro power_increasing) simp_all
  with assms(3) show ?thesis by simp
qed

lemma ceil_double_div_exact:
  assumes d: "0 < d" "d < 2 ^ 27" and x: "\<bar>x\<bar> < 2 ^ 27 * d"
  shows "ceil_double_div x d = - ((- x) div d)"
proof (cases "x = 0")
  case True
  then show ?thesis by (simp add: ceil_double_div_def)
next
  case False
  define n where "n = \<bar>x\<bar>"
  define P :: int where "P = 2 ^ normalise n d"
  define m where "m = round_half_even (n * P) d"
  from False have n0: "0 < n" by (simp add: n_def)
  from x have nb: "n < 2 ^ 27 * d" by (simp add: n_def)
  have P0: "0 < P" by (simp add: P_def)
  from normalise_scale[OF n0 d nb] have big: "d < 2 * P" by (simp add: P_def)
  have bounds: "(n div d) * P \<le> m \<and> m < (n div d + 1) * P \<and>
                (n mod d \<noteq> 0 \<longrightarrow> (n div d) * P < m)"
  proof (cases "n mod d = 0")
    case True
    from scaled_exact[OF d(1) True, of P] P0 True show ?thesis
      by (simp add: m_def algebra_simps)
  next
    case False
    from n0 have "0 \<le> n" by simp
    from scaled_inexact[OF d(1) P0 big this False] False show ?thesis
      by (simp add: m_def)
  qed
  have fl: "m div P = n div d"
  proof -
    from bounds have "m = P * (n div d) + (m - (n div d) * P)" "0 \<le> m - (n div d) * P"
      "m - (n div d) * P < P"
      by (simp_all add: algebra_simps)
    then show ?thesis by (rule int_div_pos_eq)
  qed
  show ?thesis
  proof (cases "0 < x")
    case True
    then have xn: "x = n" by (simp add: n_def)
    from True have val: "ceil_double_div x d = (m + P - 1) div P"
      by (simp add: ceil_double_div_def Let_def m_def P_def n_def)
    show ?thesis
    proof (cases "n mod d = 0")
      case True
      with scaled_exact[OF d(1) True, of P] have m: "m = (n div d) * P" by (simp add: m_def)
      have "m + P - 1 = P * (n div d) + (P - 1)" by (simp add: m algebra_simps)
      with P0 have "(m + P - 1) div P = n div d"
        by (intro int_div_pos_eq[where r = "P - 1"]) simp_all
      moreover from True d(1) have "- ((- n) div d) = n div d"
        by (simp add: zdiv_zminus1_eq_if)
      ultimately show ?thesis using val xn by simp
    next
      case False
      with bounds have lo: "(n div d) * P < m" and hi: "m < (n div d + 1) * P" by simp_all
      have "m + P - 1 = P * (n div d + 1) + (m - (n div d) * P - 1)"
        by (simp add: algebra_simps)
      moreover from lo have "0 \<le> m - (n div d) * P - 1" by simp
      moreover from hi have "m - (n div d) * P - 1 < P" by (simp add: algebra_simps)
      ultimately have "(m + P - 1) div P = n div d + 1" by (rule int_div_pos_eq)
      moreover from False d(1) have "- ((- n) div d) = n div d + 1"
        by (simp add: zdiv_zminus1_eq_if)
      ultimately show ?thesis using val xn by simp
    qed
  next
    case neg: False
    with False have xn: "- x = n" and x0: "\<not> 0 < x" by (simp_all add: n_def)
    from x0 False have "ceil_double_div x d = - (m div P)"
      by (simp add: ceil_double_div_def Let_def m_def P_def n_def)
    with fl xn show ?thesis by simp
  qed
qed

lemma double_sub_exact: "\<bar>a - b\<bar> \<le> 2 ^ 53 \<Longrightarrow> double_sub a b = a - b"
  by (simp add: double_sub_def Let_def)

lemma slot_days_exact:
  assumes "Date_getTime pf startDate = Some s" and "Date_getTime pf endDate = Some e"
    and "\<bar>e - s\<bar> \<le> 2 ^ 53"
  shows "slot_days pf startDate endDate = Num (\<lceil>real_of_int (e - s) / 86400000\<rceil> + 1)"
proof -
  have "\<bar>e - s\<bar> < 2 ^ 27 * 86400000" using assms(3) by simp
  then have "ceil_double_div (e - s) 86400000 = - ((- (e - s)) div 86400000)"
    by (intro ceil_double_div_exact) simp_all
  moreover have "\<lceil>real_of_int (e - s) / real_of_int 86400000\<rceil> = - (- (e - s) div 86400000)"
    by (rule ceiling_divide_eq_div)
  ultimately have "ceil_double_div (e - s) 86400000 = \<lceil>real_of_int (e - s) / 86400000\<rceil>"
    by simp
  with assms show ?thesis
    by (simp add: slot_days_def double_sub_exact)
qed

lemma slot_query_keys:
  "map_of (slot_query pf c ps) ''days'' =
     Some (QNum (slot_days pf (sp_startDate ps) (sp_endDate ps)))"
  "map_of (slot_query pf c ps) ''start_date'' = Some (QRaw (sp_startDate ps))"
  "map_of (slot_query pf c ps) ''end_date'' = None"
  "set (map fst (slot_query pf c ps)) \<subseteq>
     {''subdomain'', ''start_date'', ''days'', ''lids[]'', ''pids[]'', ''appointment_type_id''}"
  by (auto simp: slot_query_def)

lemma getAppointmentSlots_request:
  assumes "getAppointmentSlots pf srv ps c w = (r, c', w')"
  obtains x where
    "request srv (get_appointment_slots srv) ''GET'' ''/appointment_slots''
       (slot_query pf c ps) None c w = (x, c', w')"
proof -
  from assms have
    "outcome (request srv (get_appointment_slots srv) ''GET'' ''/appointment_slots''
       (slot_query pf c ps) None c w) = (failure r, c', w')"
    unfolding getAppointmentSlots_outcome[symmetric] by (simp add: outcome_def)
  from outcome_eq[OF this] that show thesis by blast
qed

text \<open>
  C7, as amended. When both date strings parse, with \<open>s\<close> and \<open>e\<close> the milliseconds of
  the start and the end date, every call that \<open>getAppointmentSlots\<close> sends to
  \<open>/appointment_slots\<close> carries the start date as given and has no \<open>end_date\<close>
  parameter: its parameters are among \<open>subdomain\<close>, \<open>start_date\<close>, \<open>days\<close>, \<open>lids[]\<close>,
  \<open>pids[]\<close> and \<open>appointment_type_id\<close>. When the two dates are at most 2^53
  milliseconds apart, its \<open>days\<close> is exactly ceil((e - s) / 86400000) + 1. The call is
  sent whenever authentication succeeds.
\<close>

theorem slot_request_day_count:
  assumes "Date_getTime pf (sp_startDate ps) = Some s"
    and "Date_getTime pf (sp_endDate ps) = Some e"
    and "getAppointmentSlots pf srv ps c w = (r, c', w')"
  shows "(\<forall>call\<in>set (new_calls w w'). path call = ''/appointment_slots'' \<longrightarrow>
            (\<bar>e - s\<bar> \<le> 2 ^ 53 \<longrightarrow>
               map_of (params call) ''days'' =
                 Some (QNum (Num (\<lceil>real_of_int (e - s) / 86400000\<rceil> + 1)))) \<and>
            map_of (params call) ''start_date'' = Some (QRaw (sp_startDate ps)) \<and>
            map_of (params call) ''end_date'' = None \<and>
            set (map fst (params call)) \<subseteq>
              {''subdomain'', ''start_date'', ''days'', ''lids[]'', ''pids[]'',
               ''appointment_type_id''})
       \<and> ((\<exists>tok. fst (authenticate srv c w) = Inr tok) \<longrightarrow>
            (\<exists>call\<in>set (new_calls w w'). path call = ''/appointment_slots''))
       \<and> \<lceil>real_of_int (e - s) / 86400000\<rceil> = - ((s - e) div 86400000)"
proof (intro conjI ballI impI)
  from assms(3) obtain x where
    rq: "request srv (get_appointment_slots srv) ''GET'' ''/appointment_slots''
           (slot_query pf c ps) None c w = (x, c', w')"
    by (rule getAppointmentSlots_request)
  let ?api = "api_call c' ''GET'' ''/appointment_slots'' (slot_query pf c ps) None (bearerToken c')"
  {
    fix call
    assume mem: "call \<in> set (new_calls w w')" and p: "path call = ''/appointment_slots''"
    from request_calls[OF rq] mem have "call = ?api \<or> call = auth_call c"
      by (auto simp: new_calls_def)
    with p have call: "call = ?api" by (auto simp: auth_call_def)
    then have pr: "params call = slot_query pf c ps" by (simp add: api_call_def)
    show "map_of (params call) ''start_date'' = Some (QRaw (sp_startDate ps))"
      unfolding pr by (rule slot_query_keys(2))
    show "map_of (params call) ''end_date'' = None"
      unfolding pr by (rule slot_query_keys(3))
    show "set (map fst (params call)) \<subseteq>
            {''subdomain'', ''start_date'', ''days'', ''lids[]'', ''pids[]'',
             ''appointment_type_id''}"
      unfolding pr by (rule slot_query_keys(4))
    {
      assume "\<bar>e - s\<bar> \<le> 2 ^ 53"
      from slot_days_exact[OF assms(1,2) this]
      show "map_of (params call) ''days'' =
              Some (QNum (Num (\<lceil>real_of_int (e - s) / 86400000\<rceil> + 1)))"
        unfolding pr by (simp add: slot_query_keys(1))
    }
  }
  {
    assume "\<exists>tok. fst (authenticate srv c w) = Inr tok"
    then obtain tok where "fst (authenticate srv c w) = Inr tok" by blast
    from request_sends[OF this rq] have "?api \<in> set (new_calls w w')" .
    moreover have "path ?api = ''/appointment_slots''" by (simp add: api_call_def)
    ultimately show "\<exists>call\<in>set (new_calls w w'). path call = ''/appointment_slots''"
      by blast
  }
  have "\<lceil>real_of_int (e - s) / real_of_int 86400000\<rceil> = - (- (e - s) div 86400000)"
    by (rule ceiling_divide_eq_div)
  then show "\<lceil>real_of_int (e - s) / 86400000\<rceil> = - ((s - e) div 86400000)"
    by simp
qed

theorem slot_request_day_count_witness:
  "Date_getTime demo_platform (sp_startDate demo_slot_params) = Some 1704067200000 \<and>
   Date_getTime demo_platform (sp_endDate demo_slot_params) = Some 1704240000000 \<and>
   \<bar>1704240000000 - 1704067200000\<bar> \<le> (2::int) ^ 53 \<and>
   fst (authenticate demo_server demo_client demo_world) = Inr (Some ''secret'') \<and>
   list_ex (\<lambda>call. path call = ''/appointment_slots'' \<and>
                    map_of (params call) ''days'' = Some (QNum (Num 3)) \<and>
                    map_of (params call) ''end_date'' = None)
     (new_calls demo_world
        (snd (snd (getAppointmentSlots demo_platform demo_server demo_slot_params demo_client
                     demo_world))))"
proof -
  let ?out = "getAppointmentSlots demo_platform demo_server demo_slot_params demo_client demo_world"
  have h1: "Date_getTime demo_platform (sp_startDate demo_slot_params) = Some 1704067200000"
    by (simp add: demo_defs)
  have h2: "Date_getTime demo_platform (sp_endDate demo_slot_params) = Some 1704240000000"
    by (simp add: demo_defs)
  have h3: "fst (authenticate demo_server demo_client demo_world) = Inr (Some ''secret'')"
    by (simp add: client_defs demo_defs)
  have h4: "?out = (fst ?out, fst (snd ?out), snd (snd ?out))"
    by simp
  have h5: "\<bar>1704240000000 - 1704067200000\<bar> \<le> (2::int) ^ 53"
    by simp
  have n: "\<lceil>real_of_int (1704240000000 - 1704067200000) / 86400000\<rceil> + 1 = (3::int)"
    by simp
  note use = slot_request_day_count[OF h1 h2 h4]
  from use h3 obtain call where
    "call \<in> set (new_calls demo_world (snd (snd ?out)))" "path call = ''/appointment_slots''"
    by blast
  moreover from this use h5 have
    "map_of (params call) ''days'' =
       Some (QNum (Num (\<lceil>real_of_int (1704240000000 - 1704067200000) / 86400000\<rceil> + 1))) \<and>
     map_of (params call) ''end_date'' = None"
    by blast
  moreover note n
  ultimately have "list_ex (\<lambda>call. path call = ''/appointment_slots'' \<and>
                    map_of (params call) ''days'' = Some (QNum (Num 3)) \<and>
                    map_of (params call) ''end_date'' = None)
     (new_calls demo_world (snd (snd ?out)))"
    unfolding list_ex_iff by auto
  with h1 h2 h3 h5 show ?thesis by blast
qed

lemma far_days:
  "ceil_double_div (double_sub 5798205849600001 (- 5798205849600000)) 86400000 + 1 = 134217729"
  by code_simp

text \<open>
  C7 as stated fails for dates far apart. The two dates below parse to instants
  134217728 days and one millisecond apart, so that ceil((e - s) / 86400000) + 1 is
  134217730; the difference is above 2^53 and is rounded to 134217728 days exactly, and
  the call carries \<open>days\<close> = 134217729.
\<close>

theorem far_dates_lose_a_day:
  "Date_getTime far_platform (sp_startDate far_slot_params) = Some (- 5798205849600000) \<and>
   Date_getTime far_platform (sp_endDate far_slot_params) = Some 5798205849600001 \<and>
   \<lceil>real_of_int (5798205849600001 - (- 5798205849600000)) / 86400000\<rceil> + 1 = (134217730::int) \<and>
   map (\<lambda>call. (path call, map_of (params call) ''days''))
     (new_calls demo_world
        (snd (snd (getAppointmentSlots far_platform demo_server far_slot_params demo_client
                     demo_world)))) =
     [(''/appointment_slots'', Some (QNum (Num 134217729)))]"
proof -
  have "\<lceil>real_of_int (5798205849600001 - (- 5798205849600000)) / real_of_int 86400000\<rceil> =
          - (- (5798205849600001 - (- 5798205849600000)) div 86400000)"
    by (rule ceiling_divide_eq_div)
  then have "\<lceil>real_of_int (5798205849600001 - (- 5798205849600000)) / 86400000\<rceil> + 1 =
               (134217730::int)"
    by simp
  moreover have "slot_days far_platform (sp_startDate far_slot_params)
                   (sp_endDate far_slot_params) = Num 134217729"
    by (simp add: slot_days_def far_platform_def far_slot_params_def demo_platform_def far_days)
  then have "map (\<lambda>call. (path call, map_of (params call) ''days''))
     (new_calls demo_world
        (snd (snd (getAppointmentSlots far_platform demo_server far_slot_params demo_client
                     demo_world)))) =
     [(''/appointment_slots'', Some (QNum (Num 134217729)))]"
    by (simp add: getAppointmentSlots_def slot_query_def client_defs demo_server_def
          demo_client_def demo_world_def new_NexHealthClient_def answering_def
          split: prod.splits sum.splits)
  ultimately show ?thesis
    by (simp add: far_platform_def far_slot_params_def demo_platform_def)
qed

section \<open>The tools and the session state\<close>









lemmas message_defs = not_configured_def patient_found_def patient_not_found_def
  search_trouble_def patient_found_by_email_def email_not_found_def email_trouble_def
  patient_created_def create_trouble_def closed_on_def open_on_def slots_trouble_def
  need_patient_information_def no_provider_def appointment_confirmed_def book_trouble_def

lemma request_ok_reply:
  assumes "request srv h m p q b c w = (Inr d, c', w')"
  shows "\<exists>call st t st'. h call st = (t, OkJson d, st')"
proof -
  obtain ra ca wa where a: "authenticate srv c w = (ra, ca, wa)"
    by (cases "authenticate srv c w") auto
  show ?thesis
  proof (cases ra)
    case (Inl e)
    with a assms show ?thesis by (simp add: request_def)
  next
    case (Inr tok)
    obtain t rf st' where
      f: "h (api_call ca m p q b tok) (remote wa) = (t, rf, st')"
      by (cases "h (api_call ca m p q b tok) (remote wa)") auto
    with a Inr assms have "rf = OkJson d"
      by (simp add: request_def fetch_def split: reply.splits)
    with f show ?thesis by (intro exI) simp
  qed
qed

lemma searchPatients_nonzero:
  assumes "nonzero_ids srv" and "searchPatients srv ps c w = (Inr xs, c', w')"
  shows "\<forall>p\<in>set xs. patient_id p \<noteq> 0"
proof -
  obtain x ca wa where
    rq: "request srv (get_patients srv) ''GET'' ''/patients'' (search_query c ps) None c w
           = (x, ca, wa)"
    by (cases "request srv (get_patients srv) ''GET'' ''/patients'' (search_query c ps) None c w")
       auto
  with assms(2) obtain d where d: "x = Inr d" and xs: "xs = unwrap_listing d"
    by (cases x) (simp_all add: searchPatients_def)
  from request_ok_reply[OF rq[unfolded d]] obtain call st t st' where
    "get_patients srv call st = (t, OkJson d, st')"
    by blast
  moreover from assms(1) have
    "case get_patients srv call st of
       (t, OkJson x, st') \<Rightarrow> \<forall>p\<in>set (unwrap_listing x). patient_id p \<noteq> 0 | _ \<Rightarrow> True"
    unfolding nonzero_ids_def by (elim allE[of _ call] allE[of _ st] conjE)
  ultimately show ?thesis using xs by simp
qed

lemma createPatient_nonzero:
  assumes "nonzero_ids srv" and "createPatient srv np c w = (Inr patient, c', w')"
  shows "patient_id patient \<noteq> 0"
proof -
  from request_ok_reply[OF assms(2)[unfolded createPatient_def]] obtain call st t st' where
    "post_patients srv call st = (t, OkJson patient, st')"
    by blast
  moreover from assms(1) have
    "case post_patients srv call st of (t, OkJson p, st') \<Rightarrow> patient_id p \<noteq> 0 | _ \<Rightarrow> True"
    unfolding nonzero_ids_def by (elim allE[of _ call] allE[of _ st] conjE)
  ultimately show ?thesis by simp
qed

text \<open>What each tool does to the client's presence and to the tracked patient.\<close>

lemma searchPatient_effect:
  assumes "searchPatient srv f l ph s w = (r, s', w')"
  shows "((nexhealth s' = None) = (nexhealth s = None)) \<and>
         ((r = patient_found \<and>
           (\<exists>ps c0 w0 p xs c1 w1. searchPatients srv ps c0 w0 = (Inr (p # xs), c1, w1) \<and>
              currentPatientId s' = Some (patient_id p))) \<or>
          (r \<noteq> patient_found \<and> currentPatientId s' = currentPatientId s))"
proof (cases "nexhealth s")
  case None
  with assms show ?thesis
    by (auto simp: searchPatient_def Let_def not_configured_def patient_found_def)
next
  case (Some c)
  let ?full = "f @ '' '' @ l"
  obtain r1 c1 w1 where first: "searchPatients srv (name_and_phone s ?full ph) c w = (r1, c1, w1)"
    by (cases "searchPatients srv (name_and_phone s ?full ph) c w") auto
  show ?thesis
  proof (cases r1)
    case (Inl e)
    with assms Some first show ?thesis
      by (auto simp: searchPatient_def Let_def search_trouble_def patient_found_def)
  next
    case (Inr ps)
    show ?thesis
    proof (cases ps)
      case (Cons p xs)
      with assms Some first Inr have
        k: "r = patient_found" "currentPatientId s' = Some (patient_id p)" "nexhealth s' = Some c1"
        by (auto simp: searchPatient_def Let_def)
      from first Inr Cons have
        "searchPatients srv (name_and_phone s ?full ph) c w = (Inr (p # xs), c1, w1)"
        by simp
      then have "\<exists>ps c0 w0 p xs c1 w1. searchPatients srv ps c0 w0 = (Inr (p # xs), c1, w1) \<and>
              currentPatientId s' = Some (patient_id p)"
        using k(2) by (intro exI conjI)
      with k Some show ?thesis by simp
    next
      case Nil
      obtain r2 c2 w2 where second: "searchPatients srv (name_only s ?full) c1 w1 = (r2, c2, w2)"
        by (cases "searchPatients srv (name_only s ?full) c1 w1") auto
      show ?thesis
      proof (cases r2)
        case (Inl e)
        with assms Some first Inr Nil second show ?thesis
          by (auto simp: searchPatient_def Let_def search_trouble_def patient_found_def)
      next
        case inr2: (Inr qs)
        show ?thesis
        proof (cases qs)
          case Nil2: Nil
          with assms Some first Inr Nil second inr2 show ?thesis
            by (auto simp: searchPatient_def Let_def patient_not_found_def patient_found_def)
        next
          case (Cons p xs)
          with assms Some first Inr Nil second inr2 have
            k: "r = patient_found" "currentPatientId s' = Some (patient_id p)"
            "nexhealth s' = Some c2"
            by (auto simp: searchPatient_def Let_def)
          from second inr2 Cons have
            "searchPatients srv (name_only s ?full) c1 w1 = (Inr (p # xs), c2, w2)"
            by simp
          then have "\<exists>ps c0 w0 p xs c1 w1.
              searchPatients srv ps c0 w0 = (Inr (p # xs), c1, w1) \<and>
              currentPatientId s' = Some (patient_id p)"
            using k(2) by (intro exI conjI)
          with k Some show ?thesis by simp
        qed
      qed
    qed
  qed
qed

lemma searchPatientByEmail_effect:
  assumes "searchPatientByEmail srv mail s w = (r, s', w')"
  shows "((nexhealth s' = None) = (nexhealth s = None)) \<and>
         ((r = patient_found_by_email \<and>
           (\<exists>ps c0 w0 p xs c1 w1. searchPatients srv ps c0 w0 = (Inr (p # xs), c1, w1) \<and>
              currentPatientId s' = Some (patient_id p))) \<or>
          (r \<noteq> patient_found_by_email \<and> currentPatientId s' = currentPatientId s))"
proof (cases "nexhealth s")
  case None
  with assms show ?thesis
    by (auto simp: searchPatientByEmail_def not_configured_def patient_found_by_email_def)
next
  case (Some c)
  obtain r1 c1 w1 where first: "searchPatients srv (email_only s mail) c w = (r1, c1, w1)"
    by (cases "searchPatients srv (email_only s mail) c w") auto
  show ?thesis
  proof (cases r1)
    case (Inl e)
    with assms Some first show ?thesis
      by (auto simp: searchPatientByEmail_def email_trouble_def patient_found_by_email_def)
  next
    case (Inr ps)
    show ?thesis
    proof (cases ps)
      case Nil
      with assms Some first Inr show ?thesis
        by (auto simp: searchPatientByEmail_def email_not_found_def patient_found_by_email_def)
    next
      case (Cons p xs)
      with assms Some first Inr have
        k: "r = patient_found_by_email" "currentPatientId s' = Some (patient_id p)"
        "nexhealth s' = Some c1"
        by (auto simp: searchPatientByEmail_def)
      from first Inr Cons have
        "searchPatients srv (email_only s mail) c w = (Inr (p # xs), c1, w1)"
        by simp
      then have "\<exists>ps c0 w0 p xs c1 w1. searchPatients srv ps c0 w0 = (Inr (p # xs), c1, w1) \<and>
              currentPatientId s' = Some (patient_id p)"
        using k(2) by (intro exI conjI)
      with k Some show ?thesis by simp
    qed
  qed
qed

lemma createPatient_tool_effect:
  assumes "createPatient_tool srv f l mail ph dob g s w = (r, s', w')"
  shows "((nexhealth s' = None) = (nexhealth s = None)) \<and>
         ((r = patient_created f l \<and>
           (\<exists>np c0 w0 p c1 w1. createPatient srv np c0 w0 = (Inr p, c1, w1) \<and>
              currentPatientId s' = Some (patient_id p))) \<or>
          (r \<noteq> patient_created f l \<and> currentPatientId s' = currentPatientId s))"
proof (cases "nexhealth s")
  case None
  with assms show ?thesis
    by (auto simp: createPatient_tool_def not_configured_def patient_created_def)
next
  case (Some c)
  let ?np = "\<lparr>np_firstName = f, np_lastName = l, np_email = mail, np_phone = ph,
              np_dateOfBirth = dob, np_gender = g, np_locationId = locationId s\<rparr>"
  obtain r1 c1 w1 where first: "createPatient srv ?np c w = (r1, c1, w1)"
    by (cases "createPatient srv ?np c w") auto
  show ?thesis
  proof (cases r1)
    case (Inl e)
    with assms Some first show ?thesis
      by (auto simp: createPatient_tool_def create_trouble_def patient_created_def)
  next
    case (Inr p)
    with assms Some first have
      k: "r = patient_created f l" "currentPatientId s' = Some (patient_id p)"
      "nexhealth s' = Some c1"
      by (auto simp: createPatient_tool_def)
    from first Inr have "createPatient srv ?np c w = (Inr p, c1, w1)"
      by simp
    then have "\<exists>np c0 w0 p c1 w1. createPatient srv np c0 w0 = (Inr p, c1, w1) \<and>
              currentPatientId s' = Some (patient_id p)"
      using k(2) by (intro exI conjI)
    with k Some show ?thesis by simp
  qed
qed

lemma fetch_provider_effect:
  assumes "fetch_provider srv c s w = (r, s', w')"
  shows "nexhealth s' \<noteq> None \<and> currentPatientId s' = currentPatientId s \<and>
         practice s' = practice s \<and> locationId s' = locationId s \<and>
         (case r of Inl e \<Rightarrow> fst (getProviders srv (locationId s) c w) = Inl e
          | Inr ps \<Rightarrow> ps \<noteq> [] \<longrightarrow> currentProviderId s' = Some (provider_id (hd ps)))"
proof -
  obtain r1 c1 w1 where g: "getProviders srv (locationId s) c w = (r1, c1, w1)"
    by (cases "getProviders srv (locationId s) c w") auto
  with assms show ?thesis
    by (cases r1) (auto simp: fetch_provider_def split: list.splits)
qed

lemma report_hours_keeps:
  assumes "report_hours pf startDate s w = (r, s', w')"
  shows "s' = s \<and> w' = w"
  using assms by (simp add: report_hours_def Let_def split: option.splits if_splits)

lemma getAvailableSlots_skip:
  assumes "truthy_id (currentProviderId s) \<or> nexhealth s = None"
  shows "getAvailableSlots pf srv startDate n s w = report_hours pf startDate s w"
  using assms by (auto simp: getAvailableSlots_def)

lemma getAvailableSlots_lookup:
  assumes "\<not> truthy_id (currentProviderId s)" and "nexhealth s = Some c"
    and "fetch_provider srv c s w = (r1, s1, w1)"
  shows "getAvailableSlots pf srv startDate n s w =
           (case r1 of Inl e \<Rightarrow> (slots_trouble, s1, w1)
            | Inr ps \<Rightarrow> report_hours pf startDate s1 w1)"
  using assms by (simp add: getAvailableSlots_def split: sum.splits)

lemma getAvailableSlots_effect:
  assumes "getAvailableSlots pf srv startDate n s w = (r, s', w')"
  shows "((nexhealth s' = None) = (nexhealth s = None)) \<and>
         currentPatientId s' = currentPatientId s \<and> practice s' = practice s"
proof (cases "truthy_id (currentProviderId s) \<or> nexhealth s = None")
  case True
  from assms[unfolded getAvailableSlots_skip[OF True]] have "s' = s"
    by (simp add: report_hours_keeps)
  then show ?thesis by simp
next
  case False
  then obtain c where c: "nexhealth s = Some c" and np: "\<not> truthy_id (currentProviderId s)"
    by auto
  obtain r1 s1 w1 where f: "fetch_provider srv c s w = (r1, s1, w1)"
    by (cases "fetch_provider srv c s w") auto
  from fetch_provider_effect[OF f] obtain y where
    k: "nexhealth s1 = Some y" "currentPatientId s1 = currentPatientId s"
       "practice s1 = practice s"
    by auto
  from assms[unfolded getAvailableSlots_lookup[OF np c f]] have "s' = s1"
    by (cases r1) (simp_all add: report_hours_keeps)
  with k c show ?thesis by simp
qed

lemma bookAppointment_unresolved:
  assumes "\<not> truthy_id (currentPatientId s)"
  shows "bookAppointment pf srv startTime reason s w =
           (if nexhealth s = None then not_configured else need_patient_information, s, w)"
  using assms by (simp add: bookAppointment_def split: option.splits)

lemma bookAppointment_effect:
  assumes "bookAppointment pf srv startTime reason s w = (r, s', w')"
  shows "((nexhealth s' = None) = (nexhealth s = None)) \<and>
         currentPatientId s' = currentPatientId s \<and>
         (truthy_id (currentPatientId s) \<longrightarrow> r \<noteq> need_patient_information)"
proof (cases "nexhealth s")
  case None
  with assms show ?thesis
    by (auto simp: bookAppointment_def not_configured_def need_patient_information_def)
next
  case (Some c)
  show ?thesis
  proof (cases "truthy_id (currentPatientId s)")
    case False
    with assms Some show ?thesis by (simp add: bookAppointment_unresolved)
  next
    case True
    obtain r1 s1 w1 where
      f: "(if \<not> truthy_id (currentProviderId s) then fetch_provider srv c s w else (Inr [], s, w))
            = (r1, s1, w1)"
      by (cases "if \<not> truthy_id (currentProviderId s) then fetch_provider srv c s w
                 else (Inr [], s, w)") auto
    have k: "nexhealth s1 \<noteq> None \<and> currentPatientId s1 = currentPatientId s"
    proof (cases "truthy_id (currentProviderId s)")
      case True
      with f Some show ?thesis by simp
    next
      case False
      with f have "fetch_provider srv c s w = (r1, s1, w1)" by simp
      from fetch_provider_effect[OF this] show ?thesis by simp
    qed
    obtain r2 c2 w2 where
      a: "createAppointment srv
            \<lparr>na_locationId = locationId s1, na_patientId = the (currentPatientId s1),
             na_providerId = currentProviderId s1, na_startTime = startTime, na_note = reason\<rparr>
            (the (nexhealth s1)) w1 = (r2, c2, w2)"
      by (cases "createAppointment srv
            \<lparr>na_locationId = locationId s1, na_patientId = the (currentPatientId s1),
             na_providerId = currentProviderId s1, na_startTime = startTime, na_note = reason\<rparr>
            (the (nexhealth s1)) w1") auto
    from assms Some True f a have
      "(r = book_trouble \<or> r = no_provider \<or> r = appointment_confirmed pf startTime) \<and>
       (s' = s1 \<or> s' = s1\<lparr>nexhealth := Some c2\<rparr>)"
      by (cases r1; cases r2) (auto simp: bookAppointment_def split: if_splits)
    moreover have "book_trouble \<noteq> need_patient_information"
      "no_provider \<noteq> need_patient_information"
      "appointment_confirmed pf startTime \<noteq> need_patient_information"
      by (simp_all add: message_defs)
    ultimately show ?thesis using k Some by auto
  qed
qed

lemma execute_effect:
  assumes "execute pf srv call s w = (r, s', w')"
  shows "((nexhealth s' = None) = (nexhealth s = None)) \<and>
         ((resolved (call, r) \<and>
           (\<exists>p. currentPatientId s' = Some (patient_id p) \<and>
              ((\<exists>ps c0 w0 xs c1 w1. searchPatients srv ps c0 w0 = (Inr (p # xs), c1, w1)) \<or>
               (\<exists>np c0 w0 c1 w1. createPatient srv np c0 w0 = (Inr p, c1, w1))))) \<or>
          (\<not> resolved (call, r) \<and> currentPatientId s' = currentPatientId s)) \<and>
         (is_booking call \<and> truthy_id (currentPatientId s) \<longrightarrow> r \<noteq> need_patient_information)"
proof (cases call)
  case (SearchPatient f l ph)
  with assms have "searchPatient srv f l ph s w = (r, s', w')" by (simp add: execute_def)
  from searchPatient_effect[OF this] SearchPatient show ?thesis
    by (simp add: resolved_def is_booking_def) blast
next
  case (SearchPatientByEmail mail)
  with assms have "searchPatientByEmail srv mail s w = (r, s', w')" by (simp add: execute_def)
  from searchPatientByEmail_effect[OF this] SearchPatientByEmail show ?thesis
    by (simp add: resolved_def is_booking_def) blast
next
  case (CreatePatient f l mail ph dob g)
  with assms have "createPatient_tool srv f l mail ph dob g s w = (r, s', w')"
    by (simp add: execute_def)
  from createPatient_tool_effect[OF this] CreatePatient show ?thesis
    by (simp add: resolved_def is_booking_def) blast
next
  case (GetAvailableSlots startDate n)
  with assms have "getAvailableSlots pf srv startDate n s w = (r, s', w')"
    by (simp add: execute_def)
  from getAvailableSlots_effect[OF this] GetAvailableSlots show ?thesis
    by (simp add: resolved_def is_booking_def)
next
  case (BookAppointment startTime reason)
  with assms have "bookAppointment pf srv startTime reason s w = (r, s', w')"
    by (simp add: execute_def)
  from bookAppointment_effect[OF this] BookAppointment show ?thesis
    by (simp add: resolved_def is_booking_def)
next
  case (GetPracticeInfo infoType)
  with assms show ?thesis
    by (auto simp: execute_def resolved_def is_booking_def)
qed

lemmas tool_defs = searchPatient_def searchPatientByEmail_def createPatient_tool_def
  fetch_provider_def report_hours_def getAvailableSlots_def bookAppointment_def getPracticeInfo_def execute_def
  name_and_phone_def name_only_def email_only_def dayName_def days_def hoursForDay_def
  toLowerCase_def lower_char_def searches_def

lemmas session_defs = demo_session_def new_session_def demo_config_def to_config_def
  demo_row_def demo_agent_def or_else_def empty_server_def ann_server_def down_server_def
  zero_id_server_def


text \<open>
  C9, as amended. With a configured client, a search that finds patients (at once, by
  the fallback, or by email) stores the identifier of the first patient returned and
  answers with a fixed sentence that names no one. A successful creation stores the
  identifier of the created patient; its answer repeats the first and last name that
  the caller supplied.
\<close>

theorem resolved_patient_is_stored:
  assumes "nexhealth s = Some c"
  shows "(searchPatients srv (name_and_phone s (firstName @ '' '' @ lastName) phoneNo) c w
            = (Inr (p # ps), c1, w1) \<longrightarrow>
          searchPatient srv firstName lastName phoneNo s w =
            (''Patient record found. Proceed directly to asking for appointment preference. Do not announce the patient's name.'',
             s\<lparr>nexhealth := Some c1, currentPatientId := Some (patient_id p)\<rparr>, w1))
       \<and> (searchPatients srv (name_and_phone s (firstName @ '' '' @ lastName) phoneNo) c w
            = (Inr [], c1, w1) \<and>
          searchPatients srv (name_only s (firstName @ '' '' @ lastName)) c1 w1
            = (Inr (p # ps), c2, w2) \<longrightarrow>
          searchPatient srv firstName lastName phoneNo s w =
            (''Patient record found. Proceed directly to asking for appointment preference. Do not announce the patient's name.'',
             s\<lparr>nexhealth := Some c2, currentPatientId := Some (patient_id p)\<rparr>, w2))
       \<and> (searchPatients srv (email_only s mail) c w = (Inr (p # ps), c1, w1) \<longrightarrow>
          searchPatientByEmail srv mail s w =
            (''Patient record found. Proceed directly to asking for appointment preference.'',
             s\<lparr>nexhealth := Some c1, currentPatientId := Some (patient_id p)\<rparr>, w1))
       \<and> (createPatient srv
            \<lparr>np_firstName = firstName, np_lastName = lastName, np_email = mail,
             np_phone = phoneNo, np_dateOfBirth = dateOfBirth, np_gender = gen,
             np_locationId = locationId s\<rparr> c w = (Inr p, c1, w1) \<longrightarrow>
          createPatient_tool srv firstName lastName mail phoneNo dateOfBirth gen s w =
            (''Great! I've created a patient record for '' @ firstName @ '' '' @ lastName
               @ ''. Now let me check our availability.'',
             s\<lparr>nexhealth := Some c1, currentPatientId := Some (patient_id p)\<rparr>, w1))"
  using assms
  by (simp add: searchPatient_def searchPatientByEmail_def createPatient_tool_def Let_def
        patient_found_def patient_found_by_email_def patient_created_def)

theorem resolved_patient_is_stored_witness:
  "nexhealth demo_session = Some (new_NexHealthClient ''key'' ''smile'' None) \<and>
   fst (createPatient demo_server
          \<lparr>np_firstName = ''John'', np_lastName = ''Smith'', np_email = ''john@example.org'',
           np_phone = ''555-0101'', np_dateOfBirth = ''1990-01-01'', np_gender = male,
           np_locationId = locationId demo_session\<rparr>
          (new_NexHealthClient ''key'' ''smile'' None) demo_world)
     = Inr (ann\<lparr>patient_id := 43\<rparr>) \<and>
   currentPatientId
     (fst (snd (createPatient_tool demo_server ''John'' ''Smith'' ''john@example.org''
                  ''555-0101'' ''1990-01-01'' male demo_session demo_world))) = Some 43 \<and>
   fst (searchPatients demo_server (email_only demo_session ''ann@example.org'')
          (new_NexHealthClient ''key'' ''smile'' None) demo_world) = Inr [ann] \<and>
   currentPatientId
     (fst (snd (searchPatientByEmail demo_server ''ann@example.org'' demo_session demo_world)))
     = Some 42 \<and>
   fst (searchPatientByEmail demo_server ''ann@example.org'' demo_session demo_world)
     = patient_found_by_email"
proof -
  let ?c = "new_NexHealthClient ''key'' ''smile'' None"
  let ?np = "\<lparr>np_firstName = ''John'', np_lastName = ''Smith'', np_email = ''john@example.org'',
              np_phone = ''555-0101'', np_dateOfBirth = ''1990-01-01'', np_gender = male,
              np_locationId = locationId demo_session\<rparr>"
  let ?cr = "createPatient demo_server ?np ?c demo_world"
  let ?se = "searchPatients demo_server (email_only demo_session ''ann@example.org'') ?c demo_world"
  have h0: "nexhealth demo_session = Some ?c"
    by (simp add: session_defs demo_defs truthy_str_def)
  have h1: "fst ?cr = Inr (ann\<lparr>patient_id := 43\<rparr>)"
    by (simp add: client_defs tool_defs session_defs demo_defs)
  have h2: "fst ?se = Inr [ann]"
    by (simp add: client_defs tool_defs session_defs demo_defs)
  have cr: "?cr = (Inr (ann\<lparr>patient_id := 43\<rparr>), fst (snd ?cr), snd (snd ?cr))"
    using h1 by (cases ?cr) simp
  have se: "?se = (Inr (ann # []), fst (snd ?se), snd (snd ?se))"
    using h2 by (cases ?se) simp
  note use = resolved_patient_is_stored[OF h0, where srv = demo_server and firstName = "''John''"
      and lastName = "''Smith''" and mail = "''john@example.org''" and phoneNo = "''555-0101''"
      and dateOfBirth = "''1990-01-01''" and gen = male and w = demo_world
      and p = "ann\<lparr>patient_id := 43\<rparr>" and ?c1.0 = "fst (snd ?cr)" and ?w1.0 = "snd (snd ?cr)",
      THEN conjunct2, THEN conjunct2, THEN conjunct2, rule_format, OF cr]
  then have c1: "currentPatientId
     (fst (snd (createPatient_tool demo_server ''John'' ''Smith'' ''john@example.org''
                  ''555-0101'' ''1990-01-01'' male demo_session demo_world))) = Some 43"
    by simp
  note use2 = resolved_patient_is_stored[OF h0, where srv = demo_server
      and mail = "''ann@example.org''" and w = demo_world and p = ann and ps = "[]"
      and ?c1.0 = "fst (snd ?se)" and ?w1.0 = "snd (snd ?se)",
      THEN conjunct2, THEN conjunct2, THEN conjunct1, rule_format, OF se]
  then have c2: "currentPatientId
     (fst (snd (searchPatientByEmail demo_server ''ann@example.org'' demo_session demo_world)))
     = Some 42"
    and c3: "fst (searchPatientByEmail demo_server ''ann@example.org'' demo_session demo_world)
     = patient_found_by_email"
    by (simp_all add: ann_def patient_found_by_email_def)
  show ?thesis by (intro conjI) (rule h0 h1 c1 h2 c2 c3)+
qed

text \<open>
  The claim fails for creation: the answer to a successful \<open>createPatient\<close> call for
  John Smith names him.
\<close>

theorem creation_answer_names_patient:
  "fst (createPatient_tool demo_server ''John'' ''Smith'' ''john@example.org'' ''555-0101''
          ''1990-01-01'' male demo_session demo_world)
     = ''Great! I've created a patient record for John Smith. Now let me check our availability.''"
  by (simp add: client_defs tool_defs session_defs demo_defs patient_created_def)

lemma conversation_Cons:
  assumes "conversation pf srv ((d, call) # calls) s w = (rs, s', w')"
  obtains r s1 w1 rs2 where "execute pf srv call s (idle d w) = (r, s1, w1)"
    and "conversation pf srv calls s1 w1 = (rs2, s', w')" and "rs = (call, r) # rs2"
proof -
  obtain r s1 w1 where e: "execute pf srv call s (idle d w) = (r, s1, w1)"
    by (cases "execute pf srv call s (idle d w)") auto
  obtain rs2 s2 w2 where c: "conversation pf srv calls s1 w1 = (rs2, s2, w2)"
    by (cases "conversation pf srv calls s1 w1") auto
  from assms have "rs = (call, r) # rs2 \<and> s' = s2 \<and> w' = w2"
    by (simp add: e c)
  with e c that show thesis by blast
qed

lemma conversation_unresolved:
  assumes "conversation pf srv calls s w = (rs, s', w')" and "\<forall>cr\<in>set rs. \<not> resolved cr"
  shows "currentPatientId s' = currentPatientId s \<and> (nexhealth s' = None) = (nexhealth s = None)"
  using assms
proof (induction calls arbitrary: s w rs)
  case Nil
  then show ?case by simp
next
  case (Cons x calls)
  obtain d call where x: "x = (d, call)" by (cases x)
  from Cons.prems(1)[unfolded x] obtain r s1 w1 rs2 where
    e: "execute pf srv call s (idle d w) = (r, s1, w1)"
    and c: "conversation pf srv calls s1 w1 = (rs2, s', w')" and rs: "rs = (call, r) # rs2"
    by (rule conversation_Cons)
  from rs Cons.prems(2) have nr: "\<not> resolved (call, r)" and rest: "\<forall>cr\<in>set rs2. \<not> resolved cr"
    by simp_all
  from execute_effect[OF e] nr have
    "currentPatientId s1 = currentPatientId s" "(nexhealth s1 = None) = (nexhealth s = None)"
    by simp_all
  with Cons.IH[OF c rest] show ?case by simp
qed

text \<open>
  C2, as amended. At the end of any conversation in which no search and no creation
  answered with its success message, a \<open>bookAppointment\<close> call sends no HTTP call at
  all, leaves the session as it is, and answers "I need to have your patient
  information first..." when the client is configured (an API key and a subdomain are
  present), and "Booking system not configured..." when it is not.
\<close>

theorem booking_needs_resolved_patient:
  assumes "conversation pf srv calls (new_session pf key config) w = (rs, s, w1)"
    and "\<forall>cr\<in>set rs. \<not> resolved cr"
  shows "bookAppointment pf srv startTime reason s (idle d w1) =
           ((if truthy_str key \<and> truthy_str (config_subdomain (nexhealthConfig config))
             then ''I need to have your patient information first. Can you give me your name and email?''
             else ''Booking system not configured. Please call the office directly.''),
            s, idle d w1)
         \<and> new_calls (idle d w1)
             (snd (snd (bookAppointment pf srv startTime reason s (idle d w1)))) = []"
proof -
  from conversation_unresolved[OF assms] have
    "currentPatientId s = None"
    "(nexhealth s = None) =
       (\<not> (truthy_str key \<and> truthy_str (config_subdomain (nexhealthConfig config))))"
    by (simp_all add: new_session_def)
  then show ?thesis
    by (simp add: bookAppointment_unresolved truthy_id_def new_calls_def
          need_patient_information_def not_configured_def)
qed

theorem booking_needs_resolved_patient_witness:
  "list_all (\<lambda>cr. \<not> resolved cr)
     (fst (conversation demo_platform empty_server
             [(0, SearchPatient ''Bob'' ''Ray'' ''555''), (2000, GetPracticeInfo ''hours'')]
             (new_session demo_platform (Some ''key'') demo_config) demo_world)) \<and>
   fst (bookAppointment demo_platform empty_server ''2024-01-02T09:00:00'' None
          (fst (snd (conversation demo_platform empty_server
                       [(0, SearchPatient ''Bob'' ''Ray'' ''555''), (2000, GetPracticeInfo ''hours'')]
                       (new_session demo_platform (Some ''key'') demo_config) demo_world)))
          (idle 10
             (snd (snd (conversation demo_platform empty_server
                          [(0, SearchPatient ''Bob'' ''Ray'' ''555''),
                           (2000, GetPracticeInfo ''hours'')]
                          (new_session demo_platform (Some ''key'') demo_config) demo_world)))))
     = need_patient_information"
proof -
  let ?conv = "conversation demo_platform empty_server
             [(0, SearchPatient ''Bob'' ''Ray'' ''555''), (2000, GetPracticeInfo ''hours'')]
             (new_session demo_platform (Some ''key'') demo_config) demo_world"
  have h1: "?conv = (fst ?conv, fst (snd ?conv), snd (snd ?conv))"
    by simp
  have rs: "fst ?conv =
              [(SearchPatient ''Bob'' ''Ray'' ''555'', patient_not_found),
               (GetPracticeInfo ''hours'', ''Tuesday: 9am-5pm'')]"
    by (simp add: client_defs tool_defs session_defs demo_defs formatOperatingHours_def
          capitalize_def upper_char_def)
  have h2: "\<forall>cr\<in>set (fst ?conv). \<not> resolved cr"
    unfolding rs by (simp add: resolved_def patient_not_found_def patient_found_def)
  have k: "truthy_str (Some ''key'') \<and> truthy_str (config_subdomain (nexhealthConfig demo_config))"
    by (simp add: truthy_str_def session_defs)
  from booking_needs_resolved_patient[OF h1 h2, of "''2024-01-02T09:00:00''" None 10] k
  have "fst (bookAppointment demo_platform empty_server ''2024-01-02T09:00:00'' None
               (fst (snd ?conv)) (idle 10 (snd (snd ?conv)))) = need_patient_information"
    by (simp add: need_patient_information_def)
  with h2 show ?thesis by (simp add: list_all_iff)
qed

text \<open>
  The claim fails without a configured client: in a fresh conversation with no API
  key, the booking tool answers that the booking system is not configured.
\<close>

theorem booking_without_client_not_corrective:
  "fst (bookAppointment demo_platform demo_server ''2024-01-02T09:00:00'' None
          (new_session demo_platform None demo_config) demo_world)
     = ''Booking system not configured. Please call the office directly.'' \<and>
   fst (bookAppointment demo_platform demo_server ''2024-01-02T09:00:00'' None
          (new_session demo_platform None demo_config) demo_world)
     \<noteq> need_patient_information"
  by (simp add: bookAppointment_def new_session_def truthy_str_def not_configured_def
        need_patient_information_def)

lemma resolved_nonzero:
  assumes "nonzero_ids srv" and "execute pf srv call s w = (r, s', w')"
    and "resolved (call, r)"
  shows "truthy_id (currentPatientId s')"
proof -
  from execute_effect[OF assms(2)] assms(3) obtain p where
    p: "currentPatientId s' = Some (patient_id p)"
    and src: "(\<exists>ps c0 w0 xs c1 w1. searchPatients srv ps c0 w0 = (Inr (p # xs), c1, w1)) \<or>
              (\<exists>np c0 w0 c1 w1. createPatient srv np c0 w0 = (Inr p, c1, w1))"
    by blast
  from src have "patient_id p \<noteq> 0"
  proof
    assume "\<exists>ps c0 w0 xs c1 w1. searchPatients srv ps c0 w0 = (Inr (p # xs), c1, w1)"
    then obtain ps c0 w0 xs c1 w1 where
      "searchPatients srv ps c0 w0 = (Inr (p # xs), c1, w1)"
      by blast
    from searchPatients_nonzero[OF assms(1) this] show ?thesis by simp
  next
    assume "\<exists>np c0 w0 c1 w1. createPatient srv np c0 w0 = (Inr p, c1, w1)"
    then obtain np c0 w0 c1 w1 where "createPatient srv np c0 w0 = (Inr p, c1, w1)"
      by blast
    from createPatient_nonzero[OF assms(1) this] show ?thesis .
  qed
  with p show ?thesis by (simp add: truthy_id_def)
qed

lemma conversation_resolved:
  assumes "nonzero_ids srv" and "truthy_id (currentPatientId s)"
    and "conversation pf srv calls s w = (rs, s', w')"
  shows "truthy_id (currentPatientId s') \<and>
         (\<forall>cr\<in>set rs. is_booking (fst cr) \<longrightarrow> snd cr \<noteq> need_patient_information)"
  using assms(2,3)
proof (induction calls arbitrary: s w rs)
  case Nil
  then show ?case by simp
next
  case (Cons x calls)
  obtain d call where x: "x = (d, call)" by (cases x)
  from Cons.prems(2)[unfolded x] obtain r s1 w1 rs2 where
    e: "execute pf srv call s (idle d w) = (r, s1, w1)"
    and c: "conversation pf srv calls s1 w1 = (rs2, s', w')" and rs: "rs = (call, r) # rs2"
    by (rule conversation_Cons)
  have t1: "truthy_id (currentPatientId s1)"
  proof (cases "resolved (call, r)")
    case True
    from resolved_nonzero[OF assms(1) e True] show ?thesis .
  next
    case False
    with execute_effect[OF e] have "currentPatientId s1 = currentPatientId s" by simp
    with Cons.prems(1) show ?thesis by simp
  qed
  from execute_effect[OF e] Cons.prems(1) have
    here: "is_booking call \<longrightarrow> r \<noteq> need_patient_information"
    by simp
  from Cons.IH[OF t1 c] here rs show ?case by simp
qed

text \<open>
  C10, as amended. No tool execution resets the tracked patient identifier to null: it
  leaves it as it is or stores an identifier the server delivered. When every
  identifier the server delivers is non-zero, a search or creation that succeeds leaves
  an identifier that passes the booking precondition, and from then on, through any
  further tool calls, every \<open>bookAppointment\<close> call passes it and never answers "I need
  to have your patient information first...".
\<close>

theorem patient_id_is_kept:
  "(execute pf srv call s w = (r, s1, w1) \<longrightarrow>
      currentPatientId s1 = currentPatientId s \<or> (\<exists>i. currentPatientId s1 = Some i))
   \<and> (nonzero_ids srv \<and> execute pf srv call s w = (r, s1, w1) \<and> resolved (call, r) \<longrightarrow>
        truthy_id (currentPatientId s1))
   \<and> (nonzero_ids srv \<and> truthy_id (currentPatientId s) \<and>
      conversation pf srv calls s w = (rs, s2, w2) \<longrightarrow>
        truthy_id (currentPatientId s2) \<and>
        (\<forall>cr\<in>set rs. is_booking (fst cr) \<longrightarrow> snd cr \<noteq> need_patient_information))"
proof (intro conjI impI)
  assume "execute pf srv call s w = (r, s1, w1)"
  from execute_effect[OF this]
  show "currentPatientId s1 = currentPatientId s \<or> (\<exists>i. currentPatientId s1 = Some i)"
    by blast
next
  assume "nonzero_ids srv \<and> execute pf srv call s w = (r, s1, w1) \<and> resolved (call, r)"
  then show "truthy_id (currentPatientId s1)"
    using resolved_nonzero by blast
next
  assume a: "nonzero_ids srv \<and> truthy_id (currentPatientId s) \<and>
             conversation pf srv calls s w = (rs, s2, w2)"
  then have "truthy_id (currentPatientId s2) \<and>
        (\<forall>cr\<in>set rs. is_booking (fst cr) \<longrightarrow> snd cr \<noteq> need_patient_information)"
    using conversation_resolved by blast
  then show "truthy_id (currentPatientId s2)"
    and "\<forall>cr\<in>set rs. is_booking (fst cr) \<longrightarrow> snd cr \<noteq> need_patient_information"
    by simp_all
qed

lemma nonzero_ids_demo: "nonzero_ids demo_server"
  by (simp add: nonzero_ids_def demo_defs unwrap_listing_def)

theorem patient_id_is_kept_witness:
  "nonzero_ids demo_server \<and>
   resolved (SearchPatient ''Ann'' ''Lee'' ''555'',
             fst (execute demo_platform demo_server (SearchPatient ''Ann'' ''Lee'' ''555'')
                    demo_session demo_world)) \<and>
   truthy_id (currentPatientId
     (fst (snd (execute demo_platform demo_server (SearchPatient ''Ann'' ''Lee'' ''555'')
                  demo_session demo_world)))) \<and>
   list_all (\<lambda>cr. snd cr \<noteq> need_patient_information)
     (fst (conversation demo_platform demo_server
             [(1000, BookAppointment ''2024-01-02T09:00:00'' None)]
             (fst (snd (execute demo_platform demo_server (SearchPatient ''Ann'' ''Lee'' ''555'')
                          demo_session demo_world)))
             (snd (snd (execute demo_platform demo_server (SearchPatient ''Ann'' ''Lee'' ''555'')
                          demo_session demo_world)))))"
proof -
  let ?call = "SearchPatient ''Ann'' ''Lee'' ''555''"
  let ?ex = "execute demo_platform demo_server ?call demo_session demo_world"
  let ?calls = "[(1000, BookAppointment ''2024-01-02T09:00:00'' None)]"
  let ?conv = "conversation demo_platform demo_server ?calls (fst (snd ?ex)) (snd (snd ?ex))"
  have r: "fst ?ex = patient_found"
    by (simp add: client_defs tool_defs session_defs demo_defs)
  then have h1: "resolved (?call, fst ?ex)"
    by (simp add: resolved_def)
  have h2: "?ex = (fst ?ex, fst (snd ?ex), snd (snd ?ex))"
    by simp
  have h3: "?conv = (fst ?conv, fst (snd ?conv), snd (snd ?conv))"
    by simp
  note use1 = patient_id_is_kept[where pf = demo_platform and srv = demo_server and call = ?call
      and s = demo_session and w = demo_world and r = "fst ?ex" and ?s1.0 = "fst (snd ?ex)"
      and ?w1.0 = "snd (snd ?ex)", THEN conjunct2, THEN conjunct1, rule_format,
      OF conjI[OF nonzero_ids_demo conjI[OF h2 h1]]]
  note use2 = patient_id_is_kept[where pf = demo_platform and srv = demo_server
      and s = "fst (snd ?ex)" and w = "snd (snd ?ex)" and calls = ?calls and rs = "fst ?conv"
      and ?s2.0 = "fst (snd ?conv)" and ?w2.0 = "snd (snd ?conv)",
      THEN conjunct2, THEN conjunct2, rule_format, OF conjI[OF nonzero_ids_demo conjI[OF use1 h3]]]
  have shape: "map fst (fst ?conv) = [BookAppointment ''2024-01-02T09:00:00'' None]"
    by (cases "execute demo_platform demo_server (BookAppointment ''2024-01-02T09:00:00'' None)
                 (fst (snd ?ex)) (idle 1000 (snd (snd ?ex)))") simp
  from use2 have "\<forall>cr\<in>set (fst ?conv). is_booking (fst cr) \<longrightarrow>
                    snd cr \<noteq> need_patient_information"
    by simp
  moreover from shape have "\<forall>cr\<in>set (fst ?conv). is_booking (fst cr)"
    by (cases "fst ?conv") (auto simp: is_booking_def)
  ultimately have c: "list_all (\<lambda>cr. snd cr \<noteq> need_patient_information) (fst ?conv)"
    by (simp add: list_all_iff)
  show ?thesis by (intro conjI) (rule nonzero_ids_demo h1 use1 c)+
qed

text \<open>
  The claim fails when the server delivers the identifier 0: the search succeeds, and
  the booking call that follows still asks for the patient's information.
\<close>

theorem zero_id_fails_precondition:
  "map snd
     (fst (conversation demo_platform zero_id_server
             [(0, SearchPatient ''Ann'' ''Lee'' ''555''),
              (1000, BookAppointment ''2024-01-02T09:00:00'' None)]
             demo_session demo_world))
     = [patient_found, need_patient_information]"
  by (simp add: client_defs tool_defs session_defs demo_defs)









section \<open>The configuration loader\<close>

lemma try_catch_absent:
  "try_catch p (\<lambda>error. Fulfilled 0 x) =
     (case p of Fulfilled t y \<Rightarrow> Fulfilled t y | Rejected t e \<Rightarrow> Fulfilled t x
      | Pending \<Rightarrow> Pending)"
  by (cases p) (simp_all add: try_catch_def later_def)

lemma internal_never_rejects:
  "loadBusinessConfigInternal supabase businessId \<noteq> Rejected t e"
  unfolding loadBusinessConfigInternal_def try_catch_absent
  by (simp split: promise.splits)

lemma loadBusinessConfig_cases:
  "loadBusinessConfig supabase businessId =
     (case loadBusinessConfigInternal supabase businessId of
        Fulfilled u x \<Rightarrow> if u < TIMEOUT_MS then Fulfilled u x else Fulfilled TIMEOUT_MS None
      | Rejected u e \<Rightarrow> if u < TIMEOUT_MS then Fulfilled u None else Fulfilled TIMEOUT_MS None
      | Pending \<Rightarrow> Fulfilled TIMEOUT_MS None)"
  unfolding loadBusinessConfig_def try_catch_absent
  by (simp add: race_timeout_def split: promise.splits)

lemma await_then_cases:
  "await_then p k =
     (case p of Fulfilled t x \<Rightarrow> later t (k x) | Rejected t m \<Rightarrow> Rejected t m
      | Pending \<Rightarrow> Pending)"
  by (simp add: await_then_def)

lemma business_lookup_cases:
  "business_lookup db businessId =
     (case (if truthy_str businessId then businesses_by_id db (the businessId)
            else Fulfilled 0 \<lparr>data = None, error = None\<rparr>) of
        Pending \<Rightarrow> Pending
      | Rejected t m \<Rightarrow> Rejected t m
      | Fulfilled t first \<Rightarrow>
          if no_rows (data first)
          then (case businesses_any db of
                  Pending \<Rightarrow> Pending
                | Rejected d m \<Rightarrow> Rejected (t + d) m
                | Fulfilled d second \<Rightarrow> Fulfilled (t + d) (data second, error second))
          else Fulfilled t (data first, error first))"
  by (simp add: business_lookup_def await_then_def later_def no_rows_def
        split: promise.splits)

lemma internal_cases:
  "loadBusinessConfigInternal (Some db) businessId =
     (case business_lookup db businessId of
        Pending \<Rightarrow> Pending
      | Rejected v e \<Rightarrow> Fulfilled v None
      | Fulfilled v found \<Rightarrow>
          if snd found \<noteq> None \<or> no_rows (fst found) then Fulfilled v None
          else
            (case agents_by_business db (business_id (hd (the (fst found)))) of
               Pending \<Rightarrow> Pending
             | Rejected d m \<Rightarrow> Fulfilled (v + d) None
             | Fulfilled d result \<Rightarrow>
                 Fulfilled (v + d)
                   (Some (to_config (hd (the (fst found)))
                            (case data result of Some (a # _) \<Rightarrow> Some a | _ \<Rightarrow> None)))))"
proof (cases "business_lookup db businessId")
  case (Fulfilled v found)
  obtain rows err where found: "found = (rows, err)" by (cases found)
  show ?thesis
  proof (cases "err \<noteq> None \<or> no_rows rows")
    case True
    with Fulfilled found show ?thesis
      unfolding loadBusinessConfigInternal_def try_catch_absent
      by (auto simp: await_then_def later_def)
  next
    case False
    with Fulfilled found show ?thesis
      unfolding loadBusinessConfigInternal_def try_catch_absent
      by (cases "agents_by_business db (business_id (hd (the rows)))")
         (simp_all add: await_then_def later_def Let_def)
  qed
next
  case (Rejected v e)
  then show ?thesis
    unfolding loadBusinessConfigInternal_def try_catch_absent
    by (simp add: await_then_def)
next
  case Pending
  then show ?thesis
    unfolding loadBusinessConfigInternal_def try_catch_absent
    by (simp add: await_then_def)
qed

lemma internal_lookup_fails:
  assumes "business_lookup db businessId = Rejected v e \<or>
           business_lookup db businessId = Fulfilled v (rows, Some e) \<or>
           business_lookup db businessId = Fulfilled v (rows, err) \<and> no_rows rows"
  shows "loadBusinessConfigInternal (Some db) businessId = Fulfilled v None"
  using assms unfolding internal_cases by auto

lemma internal_lookup_finds:
  assumes "business_lookup db businessId = Fulfilled v (Some (b # bs), None)"
  shows "loadBusinessConfigInternal (Some db) businessId =
           (case agents_by_business db (business_id b) of
              Pending \<Rightarrow> Pending
            | Rejected d m \<Rightarrow> Fulfilled (v + d) None
            | Fulfilled d result \<Rightarrow>
                Fulfilled (v + d)
                  (Some (to_config b (case data result of Some (a # _) \<Rightarrow> Some a
                                      | _ \<Rightarrow> None))))"
  using assms unfolding internal_cases
  by (cases "agents_by_business db (business_id b)") (simp_all add: no_rows_def)

text \<open>
  C6, as amended. For every data-store client, present or not, and every optional
  tenant identifier, \<open>loadBusinessConfig\<close> fulfils, within the 10000 ms of its timer,
  with a configuration or with null; it never rejects and never stays pending. It gives
  a configuration only when the lookup gave that configuration before the timer fired.
  Without a client it gives null at once; the lookup itself never rejects; a lookup
  that hangs or takes 10000 ms or more gives null when the timer fires. The lookup
  gives null when a query it awaits rejects, when the business query whose rows it
  keeps reports an error, and when that query has no row. The business query whose
  rows it keeps is the query by id when that returned a row, and otherwise the query
  for any business, whose answer replaces the rows and the error of the query by id:
  an error of a query by id that returned no row is dropped. The error of the agent
  query is not read: once a business row is found and the agent query answers, the
  lookup gives the configuration of that row.
\<close>

theorem loadBusinessConfig_never_throws:
  "(\<exists>t r. loadBusinessConfig supabase businessId = Fulfilled t r \<and> t \<le> TIMEOUT_MS \<and>
           (\<forall>config. r = Some config \<longrightarrow>
              (\<exists>u. u < TIMEOUT_MS \<and>
                 loadBusinessConfigInternal supabase businessId = Fulfilled u (Some config))))
   \<and> TIMEOUT_MS = 10000
   \<and> loadBusinessConfig None businessId = Fulfilled 0 None
   \<and> (\<forall>t e. loadBusinessConfigInternal supabase businessId \<noteq> Rejected t e)
   \<and> (loadBusinessConfigInternal supabase businessId = Pending \<longrightarrow>
        loadBusinessConfig supabase businessId = Fulfilled TIMEOUT_MS None)
   \<and> (loadBusinessConfigInternal supabase businessId = Fulfilled u x \<and> TIMEOUT_MS \<le> u \<longrightarrow>
        loadBusinessConfig supabase businessId = Fulfilled TIMEOUT_MS None)
   \<and> (loadBusinessConfigInternal supabase businessId = Fulfilled u x \<and> u < TIMEOUT_MS \<longrightarrow>
        loadBusinessConfig supabase businessId = Fulfilled u x)
   \<and> (business_lookup db businessId = Rejected v e \<or>
      business_lookup db businessId = Fulfilled v (rows, Some e) \<or>
      business_lookup db businessId = Fulfilled v (rows, err) \<and> no_rows rows \<longrightarrow>
        loadBusinessConfigInternal (Some db) businessId = Fulfilled v None)
   \<and> (business_lookup db businessId = Fulfilled v (Some (b # bs), None) \<longrightarrow>
        loadBusinessConfigInternal (Some db) businessId =
          (case agents_by_business db (business_id b) of
             Pending \<Rightarrow> Pending
           | Rejected d m \<Rightarrow> Fulfilled (v + d) None
           | Fulfilled d result \<Rightarrow>
               Fulfilled (v + d)
                 (Some (to_config b (case data result of Some (a # _) \<Rightarrow> Some a
                                     | _ \<Rightarrow> None)))))
   \<and> business_lookup db businessId =
       (case (if truthy_str businessId then businesses_by_id db (the businessId)
              else Fulfilled 0 \<lparr>data = None, error = None\<rparr>) of
          Pending \<Rightarrow> Pending
        | Rejected t m \<Rightarrow> Rejected t m
        | Fulfilled t first \<Rightarrow>
            if no_rows (data first)
            then (case businesses_any db of
                    Pending \<Rightarrow> Pending
                  | Rejected d m \<Rightarrow> Rejected (t + d) m
                  | Fulfilled d second \<Rightarrow> Fulfilled (t + d) (data second, error second))
            else Fulfilled t (data first, error first))"
proof (intro conjI allI impI)
  show "\<exists>t r. loadBusinessConfig supabase businessId = Fulfilled t r \<and> t \<le> TIMEOUT_MS \<and>
           (\<forall>config. r = Some config \<longrightarrow>
              (\<exists>u. u < TIMEOUT_MS \<and>
                 loadBusinessConfigInternal supabase businessId = Fulfilled u (Some config)))"
    unfolding loadBusinessConfig_cases
    by (cases "loadBusinessConfigInternal supabase businessId") auto
  show "TIMEOUT_MS = 10000" by (simp add: TIMEOUT_MS_def)
  show "loadBusinessConfig None businessId = Fulfilled 0 None"
    unfolding loadBusinessConfig_cases
    by (simp add: loadBusinessConfigInternal_def try_catch_def TIMEOUT_MS_def)
  show "\<And>t e. loadBusinessConfigInternal supabase businessId \<noteq> Rejected t e"
    by (rule internal_never_rejects)
  show "loadBusinessConfig supabase businessId = Fulfilled TIMEOUT_MS None"
    if "loadBusinessConfigInternal supabase businessId = Pending"
    unfolding loadBusinessConfig_cases using that by simp
  show "loadBusinessConfig supabase businessId = Fulfilled TIMEOUT_MS None"
    if "loadBusinessConfigInternal supabase businessId = Fulfilled u x \<and> TIMEOUT_MS \<le> u"
    unfolding loadBusinessConfig_cases using that by simp
  show "loadBusinessConfig supabase businessId = Fulfilled u x"
    if "loadBusinessConfigInternal supabase businessId = Fulfilled u x \<and> u < TIMEOUT_MS"
    unfolding loadBusinessConfig_cases using that by simp
  show "loadBusinessConfigInternal (Some db) businessId = Fulfilled v None"
    if "business_lookup db businessId = Rejected v e \<or>
        business_lookup db businessId = Fulfilled v (rows, Some e) \<or>
        business_lookup db businessId = Fulfilled v (rows, err) \<and> no_rows rows"
    using that by (rule internal_lookup_fails)
  show "loadBusinessConfigInternal (Some db) businessId =
          (case agents_by_business db (business_id b) of
             Pending \<Rightarrow> Pending
           | Rejected d m \<Rightarrow> Fulfilled (v + d) None
           | Fulfilled d result \<Rightarrow>
               Fulfilled (v + d)
                 (Some (to_config b (case data result of Some (a # _) \<Rightarrow> Some a
                                     | _ \<Rightarrow> None))))"
    if "business_lookup db businessId = Fulfilled v (Some (b # bs), None)"
    using that by (rule internal_lookup_finds)
  show "business_lookup db businessId =
       (case (if truthy_str businessId then businesses_by_id db (the businessId)
              else Fulfilled 0 \<lparr>data = None, error = None\<rparr>) of
          Pending \<Rightarrow> Pending
        | Rejected t m \<Rightarrow> Rejected t m
        | Fulfilled t first \<Rightarrow>
            if no_rows (data first)
            then (case businesses_any db of
                    Pending \<Rightarrow> Pending
                  | Rejected d m \<Rightarrow> Rejected (t + d) m
                  | Fulfilled d second \<Rightarrow> Fulfilled (t + d) (data second, error second))
            else Fulfilled t (data first, error first))"
    by (rule business_lookup_cases)
qed

lemmas loader_defs = loadBusinessConfigInternal_def business_lookup_def try_catch_def
  await_then_def later_def no_rows_def truthy_str_def demo_store_def hanging_store_def
  failing_store_def masked_store_def slow_store_def broken_store_def

theorem loadBusinessConfig_never_throws_witness:
  "loadBusinessConfigInternal (Some hanging_store) (Some ''b1'') = Pending \<and>
   loadBusinessConfig (Some hanging_store) (Some ''b1'') = Fulfilled 10000 None \<and>
   loadBusinessConfigInternal (Some demo_store) (Some ''b1'') = Fulfilled 65 (Some demo_config) \<and>
   loadBusinessConfig (Some demo_store) (Some ''b1'') = Fulfilled 65 (Some demo_config) \<and>
   loadBusinessConfigInternal (Some slow_store) None = Fulfilled 10025 (Some demo_config) \<and>
   loadBusinessConfig (Some slow_store) None = Fulfilled 10000 None \<and>
   business_lookup failing_store (Some ''b1'') = Rejected 12 ''fetch failed'' \<and>
   loadBusinessConfigInternal (Some failing_store) (Some ''b1'') = Fulfilled 12 None \<and>
   loadBusinessConfig (Some failing_store) (Some ''b1'') = Fulfilled 12 None \<and>
   business_lookup broken_store None = Fulfilled 35 (None, Some ''connection refused'') \<and>
   loadBusinessConfigInternal (Some broken_store) None = Fulfilled 35 None \<and>
   business_lookup demo_store (Some ''b1'') = Fulfilled 40 (Some [demo_row], None) \<and>
   agents_by_business demo_store (business_id demo_row) =
     Fulfilled 25 \<lparr>data = Some [demo_agent], error = None\<rparr>"
proof -
  have h1: "loadBusinessConfigInternal (Some hanging_store) (Some ''b1'') = Pending"
    by (simp add: loader_defs)
  have h3: "business_lookup failing_store (Some ''b1'') = Rejected 12 ''fetch failed''"
    by (simp add: loader_defs)
  have h4: "business_lookup broken_store None = Fulfilled 35 (None, Some ''connection refused'')"
    by (simp add: loader_defs)
  have h5: "business_lookup demo_store (Some ''b1'') = Fulfilled 40 (Some [demo_row], None)"
    by (simp add: loader_defs)
  have h6: "agents_by_business demo_store (business_id demo_row) =
              Fulfilled 25 \<lparr>data = Some [demo_agent], error = None\<rparr>"
    by (simp add: demo_store_def)
  have h7: "business_lookup slow_store None = Fulfilled 10000 (Some [demo_row], None)"
    by (simp add: loader_defs)
  have h8: "agents_by_business slow_store (business_id demo_row) =
              Fulfilled 25 \<lparr>data = Some [demo_agent], error = None\<rparr>"
    by (simp add: slow_store_def demo_store_def)
  have t: "(65::nat) < TIMEOUT_MS" "(12::nat) < TIMEOUT_MS" "TIMEOUT_MS \<le> (10025::nat)"
    by (simp_all add: TIMEOUT_MS_def)
  note a = loadBusinessConfig_never_throws[where supabase = "Some hanging_store"
      and businessId = "Some ''b1''", THEN conjunct2, THEN conjunct2, THEN conjunct2, THEN conjunct2, THEN conjunct1, rule_format]
  note b7 = loadBusinessConfig_never_throws[where supabase = "Some demo_store"
      and businessId = "Some ''b1''" and u = 65 and x = "Some demo_config", THEN conjunct2, THEN conjunct2, THEN conjunct2, THEN conjunct2, THEN conjunct2, THEN conjunct2, THEN conjunct1, rule_format]
  note b9 = loadBusinessConfig_never_throws[where businessId = "Some ''b1''"
      and db = demo_store and v = 40 and b = demo_row and bs = "[]", THEN conjunct2, THEN conjunct2, THEN conjunct2, THEN conjunct2, THEN conjunct2, THEN conjunct2, THEN conjunct2, THEN conjunct2, THEN conjunct1, rule_format]
  note c7 = loadBusinessConfig_never_throws[where supabase = "Some failing_store"
      and businessId = "Some ''b1''" and u = 12 and x = None, THEN conjunct2, THEN conjunct2, THEN conjunct2, THEN conjunct2, THEN conjunct2, THEN conjunct2, THEN conjunct1, rule_format]
  note c8 = loadBusinessConfig_never_throws[where businessId = "Some ''b1''"
      and db = failing_store and v = 12 and e = "''fetch failed''", THEN conjunct2, THEN conjunct2, THEN conjunct2, THEN conjunct2, THEN conjunct2, THEN conjunct2, THEN conjunct2, THEN conjunct1, rule_format]
  note d6 = loadBusinessConfig_never_throws[where supabase = "Some slow_store"
      and businessId = None and u = 10025 and x = "Some demo_config", THEN conjunct2, THEN conjunct2, THEN conjunct2, THEN conjunct2, THEN conjunct2, THEN conjunct1, rule_format]
  note d9 = loadBusinessConfig_never_throws[where businessId = None and db = slow_store
      and v = 10000 and b = demo_row and bs = "[]", THEN conjunct2, THEN conjunct2, THEN conjunct2, THEN conjunct2, THEN conjunct2, THEN conjunct2, THEN conjunct2, THEN conjunct2, THEN conjunct1, rule_format]
  note e8 = loadBusinessConfig_never_throws[where businessId = None and db = broken_store
      and v = 35 and e = "''connection refused''" and rows = None, THEN conjunct2, THEN conjunct2, THEN conjunct2, THEN conjunct2, THEN conjunct2, THEN conjunct2, THEN conjunct2, THEN conjunct1, rule_format]
  from a[OF h1] have c1: "loadBusinessConfig (Some hanging_store) (Some ''b1'') = Fulfilled 10000 None"
    by (simp add: TIMEOUT_MS_def)
  from b9[OF h5] have h2: "loadBusinessConfigInternal (Some demo_store) (Some ''b1'')
                          = Fulfilled 65 (Some demo_config)"
    by (simp add: h6 demo_config_def)
  from b7 h2 t(1) have c2: "loadBusinessConfig (Some demo_store) (Some ''b1'')
                          = Fulfilled 65 (Some demo_config)"
    by simp
  from c8 h3 have c3: "loadBusinessConfigInternal (Some failing_store) (Some ''b1'')
                           = Fulfilled 12 None"
    by simp
  from c7 c3 t(2) have c4: "loadBusinessConfig (Some failing_store) (Some ''b1'') = Fulfilled 12 None"
    by simp
  from d9[OF h7] have c5: "loadBusinessConfigInternal (Some slow_store) None
                           = Fulfilled 10025 (Some demo_config)"
    by (simp add: h8 demo_config_def)
  from d6 c5 t(3) have c6: "loadBusinessConfig (Some slow_store) None = Fulfilled 10000 None"
    by (simp add: TIMEOUT_MS_def)
  from e8 h4 have c7: "loadBusinessConfigInternal (Some broken_store) None = Fulfilled 35 None"
    by simp
  show ?thesis by (intro conjI) (rule h1 c1 h2 c2 c5 c6 h3 c3 c4 h4 c7 h5 h6)+
qed

text \<open>
  C6 as stated fails for a lookup that fails in part. The query by id reports an error
  and no row, the query for any business finds one, and the agent query reports an
  error: the loader gives the configuration of that business with no agent.
\<close>

theorem failed_lookups_still_configure:
  "businesses_by_id masked_store ''b1'' =
     Fulfilled 40 \<lparr>data = None, error = Some ''permission denied''\<rparr> \<and>
   agents_by_business masked_store (business_id demo_row) =
     Fulfilled 25 \<lparr>data = None, error = Some ''relation does not exist''\<rparr> \<and>
   loadBusinessConfig (Some masked_store) (Some ''b1'') =
     Fulfilled 100 (Some (to_config demo_row None))"
  unfolding loadBusinessConfig_cases
  by (simp add: loader_defs TIMEOUT_MS_def)

section \<open>The prompt\<close>

lemma unlines_Cons: "unlines (l # ls) = l @ CHR 0x0A # unlines ls"
  by (simp add: unlines_def)

lemma fullInstructions_split:
  "fullInstructions config now =
     (identityInstructions config @ '' Today is '' @ toISODate now)
     @ (''.'' @ [CHR 0x0A]
        @ unlines
            (['''', ''''] @ procedure_lines
             @ ['''',
                ''Practice: '' @ practiceName (generalInfo config),
                ''Address: '' @ address (generalInfo config),
                ''Phone: '' @ phone (generalInfo config),
                ''Hours: '' @ hours (generalInfo config),
                ''Services: '' @ services (generalInfo config),
                ''No-Show Fee: $'' @ show_int (noShowFee (generalInfo config))]))"
  unfolding fullInstructions_def Let_def
  by (simp only: append_Cons append_Nil unlines_Cons append_assoc)

lemma fullInstructions_date:
  "(fullInstructions config t1 = fullInstructions config t2) = (toISODate t1 = toISODate t2)"
  unfolding fullInstructions_split by (simp only: same_append_eq append_same_eq)

lemma toISODate_day: "t1 div 86400000 = t2 div 86400000 \<Longrightarrow> toISODate t1 = toISODate t2"
  by (simp add: toISODate_def)

text \<open>
  C8, as amended. The prompt is a function of the configuration and of the current
  UTC date, and of nothing else: two invocations whose configurations agree on the
  practice's fields, the agent's name and the human-pretense flag, at instants of the
  same UTC day, produce the identical prompt, whatever the platform, the API key and
  the remaining fields are. For one configuration the prompts of two instants are
  identical exactly when the instants have the same UTC date.
\<close>

theorem prompt_of_config_and_date:
  "(generalInfo c1 = generalInfo c2 \<and>
    agentName (agentConfig c1) = agentName (agentConfig c2) \<and>
    pretendence (agentConfig c1) = pretendence (agentConfig c2) \<and>
    t1 div 86400000 = t2 div 86400000 \<longrightarrow>
      fst (createDynamicAgent pf1 key1 c1 t1) = fst (createDynamicAgent pf2 key2 c2 t2))
   \<and> ((fst (createDynamicAgent pf1 key1 c1 t1) = fst (createDynamicAgent pf2 key2 c1 t2))
        = (toISODate t1 = toISODate t2))"
proof (intro conjI impI)
  assume a: "generalInfo c1 = generalInfo c2 \<and>
    agentName (agentConfig c1) = agentName (agentConfig c2) \<and>
    pretendence (agentConfig c1) = pretendence (agentConfig c2) \<and>
    t1 div 86400000 = t2 div 86400000"
  then have "t1 div 86400000 = t2 div 86400000" by simp
  then have d: "toISODate t1 = toISODate t2" by (rule toISODate_day)
  from a have i: "identityInstructions c1 = identityInstructions c2"
    by (simp add: identityInstructions_def)
  from a have g: "generalInfo c1 = generalInfo c2" by simp
  have "fullInstructions c1 t1 = fullInstructions c2 t2"
    unfolding fullInstructions_def Let_def by (simp only: d i g)
  then show "fst (createDynamicAgent pf1 key1 c1 t1) = fst (createDynamicAgent pf2 key2 c2 t2)"
    by (simp only: createDynamicAgent_def fst_conv)
next
  show "(fst (createDynamicAgent pf1 key1 c1 t1) = fst (createDynamicAgent pf2 key2 c1 t2))
          = (toISODate t1 = toISODate t2)"
    by (simp only: createDynamicAgent_def fst_conv fullInstructions_date)
qed

lemma epoch_dates: "toISODate 0 = ''1970-01-01''" "toISODate 86400000 = ''1970-01-02''"
  by code_simp+

theorem prompt_of_config_and_date_witness:
  "generalInfo demo_config = generalInfo (demo_config\<lparr>pmsProvider := None\<rparr>) \<and>
   agentName (agentConfig demo_config) = agentName (agentConfig (demo_config\<lparr>pmsProvider := None\<rparr>)) \<and>
   pretendence (agentConfig demo_config)
     = pretendence (agentConfig (demo_config\<lparr>pmsProvider := None\<rparr>)) \<and>
   (1704067200000::int) div 86400000 = 1704070800000 div 86400000 \<and>
   fst (createDynamicAgent demo_platform (Some ''key'') demo_config 1704067200000)
     = fst (createDynamicAgent demo_platform None (demo_config\<lparr>pmsProvider := None\<rparr>)
              1704070800000)"
proof -
  have h1: "generalInfo demo_config = generalInfo (demo_config\<lparr>pmsProvider := None\<rparr>)"
    and h2: "agentName (agentConfig demo_config)
               = agentName (agentConfig (demo_config\<lparr>pmsProvider := None\<rparr>))"
    and h3: "pretendence (agentConfig demo_config)
               = pretendence (agentConfig (demo_config\<lparr>pmsProvider := None\<rparr>))"
    by simp_all
  have h4: "(1704067200000::int) div 86400000 = 1704070800000 div 86400000"
    by simp
  note use = prompt_of_config_and_date[where ?c1.0 = demo_config
      and ?c2.0 = "demo_config\<lparr>pmsProvider := None\<rparr>" and ?t1.0 = 1704067200000
      and ?t2.0 = 1704070800000 and ?pf1.0 = demo_platform and ?pf2.0 = demo_platform
      and ?key1.0 = "Some ''key''" and ?key2.0 = None,
      THEN conjunct1, rule_format, OF conjI[OF h1 conjI[OF h2 conjI[OF h3 h4]]]]
  show ?thesis by (intro conjI) (rule h1 h2 h3 h4 use)+
qed

text \<open>
  The claim fails across days: the same configuration gives different prompts at the
  epoch and one day later.
\<close>

theorem prompt_changes_with_date:
  "fst (createDynamicAgent demo_platform (Some ''key'') demo_config 0)
     \<noteq> fst (createDynamicAgent demo_platform (Some ''key'') demo_config 86400000)"
  by (simp only: createDynamicAgent_def fst_conv fullInstructions_date epoch_dates) simp

end
